theory Spec2Isabelle
  imports Main "HOL-Library.Word"
begin

unbundle bit_operations_syntax

section \<open>Data model of ACFS (include/acfs.h)\<close>

text \<open>
  The embedding follows the complete core (the file with \<open>acfs_write\<close>, \<open>acfs_read\<close>,
  \<open>acfs_delete\<close> and the allocator), the public header and the storage adapters.

  Conventions of the embedding.
  \<^item> \<open>uint8_t\<close>, \<open>uint16_t\<close>, \<open>uint32_t\<close> are \<open>8 word\<close>, \<open>16 word\<close>, \<open>32 word\<close>; C's
    integer promotions are made explicit with \<open>unat\<close>, and every narrowing store is an
    \<open>of_nat\<close> (which truncates) or a \<open>mod\<close>.
  \<^item> The ABI is little-endian LP64 (\<open>size_t\<close> and pointers have 64 bits), the target of the
    repository's Makefile (\<open>CC = gcc\<close>).
  \<^item> An operation returns an \<open>option\<close>: \<open>None\<close> stands for an execution that C leaves
    undefined (a null or out-of-bounds access, a division by zero); \<open>Some\<close> carries the
    returned error code and the state as the call leaves it.
  \<^item> \<open>malloc\<close> and \<open>calloc\<close> are taken to succeed, and the \<open>acfs_t*\<close> argument to be
    non-null: the state is passed by value.
\<close>

type_synonym byte = "8 word"
type_synonym u16 = "16 word"
type_synonym u32 = "32 word"

datatype acfs_error_t =
    ACFS_OK
  | ACFS_ERROR_INVALID_PARAM
  | ACFS_ERROR_NOT_INITIALIZED
  | ACFS_ERROR_ALREADY_INITIALIZED
  | ACFS_ERROR_NO_SPACE
  | ACFS_ERROR_DATA_NOT_FOUND
  | ACFS_ERROR_DATA_CORRUPTED
  | ACFS_ERROR_IO_ERROR
  | ACFS_ERROR_INVALID_FILESYSTEM
  | ACFS_ERROR_CLUSTER_FULL
  | ACFS_ERROR_CRC_MISMATCH

datatype storage_type_t =
    STORAGE_TYPE_EEPROM
  | STORAGE_TYPE_FLASH
  | STORAGE_TYPE_SDRAM
  | STORAGE_TYPE_CUSTOM

text \<open>
  \<open>storage_ops_t\<close> is a triple of function pointers. The repository provides two such
  triples, the EEPROM one (also used for SDRAM) and the Flash one; the model names them.
\<close>

datatype storage_ops_t = EEPROM_OPS | FLASH_OPS

text \<open>
  \<open>storage_device_t\<close>, together with the adapter's backing buffer (\<open>eeprom_buffer\<close> or
  \<open>flash_buffer\<close>, whose length is \<open>eeprom_size\<close> or \<open>flash_size\<close>) as the field \<open>medium\<close>.
\<close>

record storage_device_t =
  start_addr :: u32
  dev_size :: u32
  dev_type :: storage_type_t
  ops :: storage_ops_t
  need_erase :: bool
  erase_block_size :: u32
  medium :: "byte list"

record acfs_header_t =
  magic :: u32
  version :: u16
  cluster_size :: u16
  total_clusters :: u16
  sys_clusters :: u16
  data_entries :: u16
  free_clusters :: u16
  header_crc32 :: u32

text \<open>
  A value of type \<open>uint16_t *\<close>: the null pointer, a pointer to a live heap array (with
  the elements of the array), or \<open>STALE\<close>: a non-null value that points to no live array,
  as an entry record read back from the medium carries it. Reading through a stale
  pointer and passing it to \<open>free\<close> are undefined.
\<close>

datatype u16_ptr = NULL | STALE | ARRAY "u16 list"

text \<open>
  \<open>acfs_data_entry_t\<close>. \<open>data_id\<close> is the array \<open>char[32]\<close>; \<open>cluster_list\<close> is a pointer to
  a heap array of \<open>uint16_t\<close>.
\<close>

record acfs_data_entry_t =
  data_id :: string
  data_size :: u32
  cluster_count :: u16
  cluster_list :: u16_ptr
  data_crc32 :: u32
  is_valid :: bool

text \<open>
  \<open>acfs_t\<close>. \<open>storage\<close> is a pointer (\<open>None\<close> when null) to the caller's device, which the
  model keeps inside the state; \<open>entries\<close> and \<open>cluster_bitmap\<close> are heap arrays of the
  length they were allocated with. \<open>cluster_buffer\<close> is allocated and freed but never read
  or written by the core, and is left out.
\<close>

record acfs_t =
  storage :: "storage_device_t option"
  header :: acfs_header_t
  entries :: "acfs_data_entry_t list"
  cluster_bitmap :: "byte list"
  initialized :: bool

record acfs_config_t =
  cfg_cluster_size :: u16
  reserved_clusters :: u16
  format_if_invalid :: bool
  enable_crc_check :: bool

definition ACFS_MAX_DATA_ID_LEN :: nat where "ACFS_MAX_DATA_ID_LEN = 32"
definition ACFS_CLUSTER_SIZE_MIN :: nat where "ACFS_CLUSTER_SIZE_MIN = 64"
definition ACFS_CLUSTER_SIZE_MAX :: nat where "ACFS_CLUSTER_SIZE_MAX = 4096"
definition ACFS_MAX_CLUSTERS :: nat where "ACFS_MAX_CLUSTERS = 65535"
definition ACFS_MAGIC_NUMBER :: u32 where "ACFS_MAGIC_NUMBER = 0x41434653"
definition ACFS_VERSION_MAJOR :: nat where "ACFS_VERSION_MAJOR = 1"
definition ACFS_VERSION_MINOR :: nat where "ACFS_VERSION_MINOR = 0"

text \<open>\<open>sizeof(acfs_header_t)\<close> (packed) and \<open>sizeof(acfs_data_entry_t)\<close> (LP64 layout).\<close>

definition sizeof_header :: nat where "sizeof_header = 20"
definition sizeof_entry :: nat where "sizeof_entry = 56"

section \<open>Storage adapters\<close>

text \<open>
  \<open>eeprom_read\<close>, \<open>eeprom_write\<close>, \<open>flash_read\<close>, \<open>flash_write\<close>: the address indexes the
  backing buffer directly; a range that leaves the buffer gives \<open>-1\<close> (here \<open>None\<close>).
  A Flash write also gives \<open>-1\<close> unless every target byte is still \<open>0xFF\<close>.
\<close>

definition eeprom_read :: "byte list \<Rightarrow> nat \<Rightarrow> nat \<Rightarrow> byte list option" where
  "eeprom_read buf addr n =
     (if addr + n > length buf then None else Some (take n (drop addr buf)))"

definition eeprom_write :: "byte list \<Rightarrow> nat \<Rightarrow> byte list \<Rightarrow> byte list option" where
  "eeprom_write buf addr bs =
     (if addr + length bs > length buf then None
      else Some (take addr buf @ bs @ drop (addr + length bs) buf))"

definition flash_write :: "byte list \<Rightarrow> nat \<Rightarrow> byte list \<Rightarrow> byte list option" where
  "flash_write buf addr bs =
     (if addr + length bs > length buf then None
      else if \<not> list_all (\<lambda>b. b = 0xFF) (take (length bs) (drop addr buf)) then None
      else Some (take addr buf @ bs @ drop (addr + length bs) buf))"

text \<open>The calls \<open>storage->ops.read(addr, p, n)\<close> and \<open>storage->ops.write(addr, p, n)\<close>.\<close>

definition ops_read :: "storage_device_t \<Rightarrow> nat \<Rightarrow> nat \<Rightarrow> byte list option" where
  "ops_read dev addr n = eeprom_read (medium dev) addr n"

definition ops_write :: "storage_device_t \<Rightarrow> nat \<Rightarrow> byte list \<Rightarrow> storage_device_t option" where
  "ops_write dev addr bs =
     (case (case ops dev of EEPROM_OPS \<Rightarrow> eeprom_write (medium dev) addr bs
                          | FLASH_OPS \<Rightarrow> flash_write (medium dev) addr bs) of
        None \<Rightarrow> None
      | Some buf \<Rightarrow> Some (dev\<lparr>medium := buf\<rparr>))"

text \<open>\<open>acfs_create_eeprom_device\<close> and \<open>acfs_create_flash_device\<close> (the buffer is filled with \<open>0xFF\<close>).\<close>

definition acfs_create_eeprom_device :: "u32 \<Rightarrow> u32 \<Rightarrow> acfs_error_t \<times> storage_device_t option" where
  "acfs_create_eeprom_device start sz =
     (if sz = 0 then (ACFS_ERROR_INVALID_PARAM, None)
      else (ACFS_OK, Some \<lparr>start_addr = start, dev_size = sz, dev_type = STORAGE_TYPE_EEPROM,
              ops = EEPROM_OPS, need_erase = False, erase_block_size = 0,
              medium = replicate (unat sz) 0xFF\<rparr>))"

definition acfs_create_flash_device :: "u32 \<Rightarrow> u32 \<Rightarrow> u32 \<Rightarrow> acfs_error_t \<times> storage_device_t option" where
  "acfs_create_flash_device start sz ebs =
     (if sz = 0 \<or> ebs = 0 then (ACFS_ERROR_INVALID_PARAM, None)
      else (ACFS_OK, Some \<lparr>start_addr = start, dev_size = sz, dev_type = STORAGE_TYPE_FLASH,
              ops = FLASH_OPS, need_erase = True, erase_block_size = ebs,
              medium = replicate (unat sz) 0xFF\<rparr>))"

section \<open>CRC-32\<close>

text \<open>
  Modelled from the spec: \<open>acfs_crc32\<close> is declared in the header but its definition
  (\<open>acfs_crc.c\<close>) is not among the sources. The spec gives it as the standard CRC-32:
  reflected polynomial \<open>0xEDB88320\<close>, initial value \<open>0xFFFFFFFF\<close>, final XOR
  \<open>0xFFFFFFFF\<close>, one byte at a time.
\<close>

definition crc32_step :: "u32 \<Rightarrow> u32" where
  "crc32_step c = (if bit c 0 then drop_bit 1 c XOR 0xEDB88320 else drop_bit 1 c)"

definition crc32_byte :: "u32 \<Rightarrow> byte \<Rightarrow> u32" where
  "crc32_byte c b =
     crc32_step (crc32_step (crc32_step (crc32_step
       (crc32_step (crc32_step (crc32_step (crc32_step (c XOR ucast b))))))))"

definition acfs_crc32 :: "byte list \<Rightarrow> u32" where
  "acfs_crc32 bs = foldl crc32_byte 0xFFFFFFFF bs XOR 0xFFFFFFFF"

section \<open>Memory images of the structures\<close>

text \<open>
  The core writes its structures to the medium as they lie in memory. Integers are
  little-endian. In \<open>acfs_data_entry_t\<close> the fields sit at offsets 0 (\<open>data_id\<close>), 32
  (\<open>data_size\<close>), 36 (\<open>cluster_count\<close>), 40 (\<open>cluster_list\<close>), 48 (\<open>crc32\<close>) and 52
  (\<open>is_valid\<close>); padding bytes are zero (the array comes from \<open>calloc\<close>).
  The value of a non-null \<open>cluster_list\<close> pointer is a heap address; the core never uses a
  pointer value read back from the medium except to test it against null, so the model
  writes the fixed address 1 for every non-null pointer.
\<close>

definition le16 :: "u16 \<Rightarrow> byte list" where
  "le16 w = [ucast w, ucast (drop_bit 8 w)]"

definition le32 :: "u32 \<Rightarrow> byte list" where
  "le32 w = [ucast w, ucast (drop_bit 8 w), ucast (drop_bit 16 w), ucast (drop_bit 24 w)]"

definition rd16 :: "byte list \<Rightarrow> u16" where
  "rd16 bs = ucast (bs ! 0) OR push_bit 8 (ucast (bs ! 1))"

definition rd32 :: "byte list \<Rightarrow> u32" where
  "rd32 bs = ucast (bs ! 0) OR push_bit 8 (ucast (bs ! 1))
             OR push_bit 16 (ucast (bs ! 2)) OR push_bit 24 (ucast (bs ! 3))"

definition header_bytes :: "acfs_header_t \<Rightarrow> byte list" where
  "header_bytes h =
     le32 (magic h) @ le16 (version h) @ le16 (cluster_size h) @ le16 (total_clusters h)
     @ le16 (sys_clusters h) @ le16 (data_entries h) @ le16 (free_clusters h)
     @ le32 (header_crc32 h)"

definition header_of_bytes :: "byte list \<Rightarrow> acfs_header_t" where
  "header_of_bytes bs =
     \<lparr>magic = rd32 (take 4 bs), version = rd16 (take 2 (drop 4 bs)),
      cluster_size = rd16 (take 2 (drop 6 bs)), total_clusters = rd16 (take 2 (drop 8 bs)),
      sys_clusters = rd16 (take 2 (drop 10 bs)), data_entries = rd16 (take 2 (drop 12 bs)),
      free_clusters = rd16 (take 2 (drop 14 bs)), header_crc32 = rd32 (take 4 (drop 16 bs))\<rparr>"

definition byte_of_char :: "char \<Rightarrow> byte" where
  "byte_of_char c = of_char c"

definition char_of_byte :: "byte \<Rightarrow> char" where
  "char_of_byte b = char_of (unat b)"

definition pointer_bytes :: "u16_ptr \<Rightarrow> byte list" where
  "pointer_bytes p = (case p of NULL \<Rightarrow> replicate 8 0 | _ \<Rightarrow> 1 # replicate 7 0)"

definition entry_bytes :: "acfs_data_entry_t \<Rightarrow> byte list" where
  "entry_bytes e =
     map byte_of_char (data_id e) @ le32 (data_size e) @ le16 (cluster_count e) @ [0, 0]
     @ pointer_bytes (cluster_list e) @ le32 (data_crc32 e)
     @ [if is_valid e then 1 else 0] @ [0, 0, 0]"

text \<open>
  Reading an entry back: a non-null pointer read from the medium points to no live array
  (\<open>STALE\<close>); \<open>acfs_load_entries\<close> replaces it when \<open>cluster_count > 0\<close>.
\<close>

definition entry_of_bytes :: "byte list \<Rightarrow> acfs_data_entry_t" where
  "entry_of_bytes bs =
     \<lparr>data_id = map char_of_byte (take 32 bs),
      data_size = rd32 (take 4 (drop 32 bs)),
      cluster_count = rd16 (take 2 (drop 36 bs)),
      cluster_list = (if list_all (\<lambda>b. b = 0) (take 8 (drop 40 bs)) then NULL else STALE),
      data_crc32 = rd32 (take 4 (drop 48 bs)),
      is_valid = (bs ! 52 \<noteq> 0)\<rparr>"

text \<open>The all-zero entry (\<open>calloc\<close>, \<open>memset\<close>).\<close>

definition zero_entry :: acfs_data_entry_t where
  "zero_entry = \<lparr>data_id = replicate 32 (CHR 0x00), data_size = 0, cluster_count = 0,
                  cluster_list = NULL, data_crc32 = 0, is_valid = False\<rparr>"

definition zero_header :: acfs_header_t where
  "zero_header = \<lparr>magic = 0, version = 0, cluster_size = 0, total_clusters = 0,
                   sys_clusters = 0, data_entries = 0, free_clusters = 0, header_crc32 = 0\<rparr>"

definition zero_acfs :: acfs_t where
  "zero_acfs = \<lparr>storage = None, header = zero_header, entries = [], cluster_bitmap = [],
                 initialized = False\<rparr>"

section \<open>Cluster bitmap and allocator\<close>

text \<open>
  Bit \<open>i mod 8\<close> of byte \<open>i div 8\<close> records cluster \<open>i\<close>. The three definitions are the
  expressions \<open>bitmap[byte_idx] & (1 << bit_idx)\<close>, \<open>bitmap[byte_idx] |= (1 << bit_idx)\<close> and
  \<open>bitmap[byte_idx] &= ~(1 << bit_idx)\<close>; their callers check \<open>byte_idx\<close> against the array.
\<close>

definition bitmap_test :: "byte list \<Rightarrow> nat \<Rightarrow> bool" where
  "bitmap_test bm i = (bm ! (i div 8) AND push_bit (i mod 8) 1 \<noteq> 0)"

definition bitmap_set :: "byte list \<Rightarrow> nat \<Rightarrow> byte list" where
  "bitmap_set bm i = bm[i div 8 := bm ! (i div 8) OR push_bit (i mod 8) 1]"

definition bitmap_clear :: "byte list \<Rightarrow> nat \<Rightarrow> byte list" where
  "bitmap_clear bm i = bm[i div 8 := bm ! (i div 8) AND NOT (push_bit (i mod 8) 1)]"

text \<open>
  Reading the first \<open>n\<close> elements of a heap array through a pointer: undefined through a
  null or stale pointer or past the end of the array, unless nothing is read.
\<close>

definition read_array :: "u16_ptr \<Rightarrow> nat \<Rightarrow> u16 list option" where
  "read_array p n =
     (if n = 0 then Some []
      else case p of ARRAY xs \<Rightarrow> if n \<le> length xs then Some (take n xs) else None
                   | _ \<Rightarrow> None)"

text \<open>\<open>free(p)\<close> is defined for the null pointer and for a pointer to a live array.\<close>

definition free_defined :: "u16_ptr \<Rightarrow> bool" where
  "free_defined p = (p \<noteq> STALE)"

text \<open>
  The scan loop of \<open>acfs_allocate_clusters\<close>: \<open>i\<close> runs from \<open>sys_clusters\<close> while
  \<open>i < total_clusters && allocated < count\<close>; \<open>acc\<close> is \<open>cluster_list[0..allocated)\<close>.
  The counter is a \<open>uint16_t\<close> below \<open>total_clusters\<close>, so \<open>i++\<close> cannot wrap.
\<close>

function alloc_scan :: "byte list \<Rightarrow> nat \<Rightarrow> nat \<Rightarrow> nat \<Rightarrow> u16 list \<Rightarrow> (byte list \<times> u16 list) option" where
  "alloc_scan bm i n count acc =
     (if i < n \<and> length acc < count then
        (if i div 8 < length bm then
           (if \<not> bitmap_test bm i
            then alloc_scan (bitmap_set bm i) (i + 1) n count (acc @ [of_nat i])
            else alloc_scan bm (i + 1) n count acc)
         else None)
      else Some (bm, acc))"
  by pat_completeness auto
termination
  by (relation "measure (\<lambda>(bm, i, n, count, acc). n - i)") auto

declare alloc_scan.simps [simp del]

text \<open>Clearing the bits of a sequence of clusters (the roll-back loop and the loop of \<open>acfs_free_clusters\<close>).\<close>

fun clear_clusters :: "byte list \<Rightarrow> u16 list \<Rightarrow> byte list option" where
  "clear_clusters bm [] = Some bm"
| "clear_clusters bm (c # cs) =
     (if unat c div 8 < length bm then clear_clusters (bitmap_clear bm (unat c)) cs else None)"

text \<open>
  \<open>acfs_allocate_clusters(acfs, count, cluster_list)\<close>; the third component of the result
  is what the call has stored in \<open>cluster_list\<close>.
\<close>

definition acfs_allocate_clusters :: "acfs_t \<Rightarrow> u16 \<Rightarrow> (acfs_error_t \<times> acfs_t \<times> u16 list) option" where
  "acfs_allocate_clusters acfs count =
     (if free_clusters (header acfs) < count then Some (ACFS_ERROR_NO_SPACE, acfs, [])
      else
        case alloc_scan (cluster_bitmap acfs) (unat (sys_clusters (header acfs)))
               (unat (total_clusters (header acfs))) (unat count) [] of
          None \<Rightarrow> None
        | Some (bm, cl) \<Rightarrow>
            if length cl < unat count then
              (case clear_clusters bm cl of
                 None \<Rightarrow> None
               | Some bm' \<Rightarrow> Some (ACFS_ERROR_NO_SPACE, acfs\<lparr>cluster_bitmap := bm'\<rparr>, cl))
            else
              Some (ACFS_OK,
                    acfs\<lparr>cluster_bitmap := bm,
                         header := (header acfs)\<lparr>free_clusters := free_clusters (header acfs) - count\<rparr>\<rparr>,
                    cl))"

text \<open>\<open>acfs_free_clusters(acfs, cluster_list, count)\<close>.\<close>

definition acfs_free_clusters :: "acfs_t \<Rightarrow> u16_ptr \<Rightarrow> u16 \<Rightarrow> acfs_t option" where
  "acfs_free_clusters acfs cl count =
     (case read_array cl (unat count) of
        None \<Rightarrow> None
      | Some cs \<Rightarrow>
          (case clear_clusters (cluster_bitmap acfs) cs of
             None \<Rightarrow> None
           | Some bm \<Rightarrow>
               Some (acfs\<lparr>cluster_bitmap := bm,
                          header := (header acfs)\<lparr>free_clusters := free_clusters (header acfs) + count\<rparr>\<rparr>)))"

section \<open>C strings\<close>

text \<open>
  A \<open>const char*\<close> argument is given by the characters found at the pointer; the string
  ends at the first \<open>NUL\<close> (or at the end of the list, where the terminator sits).
  \<open>strncmp_eq a b n\<close> is \<open>strncmp(a, b, n) == 0\<close>; \<open>strncpy_id src\<close> is the array left by
  \<open>strncpy(dest, src, 31); dest[31] = '\\0'\<close> in a \<open>char[32]\<close>.
\<close>

definition c_str :: "string \<Rightarrow> string" where
  "c_str s = takeWhile (\<lambda>c. c \<noteq> CHR 0x00) s"

definition strlen :: "string \<Rightarrow> nat" where
  "strlen s = length (c_str s)"

definition strncmp_eq :: "string \<Rightarrow> string \<Rightarrow> nat \<Rightarrow> bool" where
  "strncmp_eq a b n = (c_str (take n a) = c_str (take n b))"

definition strncpy_id :: "string \<Rightarrow> string" where
  "strncpy_id src =
     take (ACFS_MAX_DATA_ID_LEN - 1) (c_str src)
     @ replicate (ACFS_MAX_DATA_ID_LEN - length (take (ACFS_MAX_DATA_ID_LEN - 1) (c_str src))) (CHR 0x00)"

section \<open>Caller memory\<close>

text \<open>
  A \<open>void*\<close> argument is given by the bytes found at the pointer, as a function of the
  offset: the core reads and writes whole clusters through it and so reaches offsets
  beyond the size the caller states.
\<close>

definition mem_range :: "(nat \<Rightarrow> byte) \<Rightarrow> nat \<Rightarrow> nat \<Rightarrow> byte list" where
  "mem_range m a b = map m [a..<b]"

section \<open>Internal functions of the core\<close>

definition cluster_addr :: "storage_device_t \<Rightarrow> nat \<Rightarrow> u16 \<Rightarrow> nat" where
  "cluster_addr dev S c = (unat (start_addr dev) + unat c * S) mod 2 ^ 32"

text \<open>\<open>acfs_find_entry\<close>: the index of the first valid entry with the given id, if any.\<close>

function find_entry_from :: "acfs_data_entry_t list \<Rightarrow> nat \<Rightarrow> nat \<Rightarrow> string \<Rightarrow> nat option option" where
  "find_entry_from es i n did =
     (if i < n then
        (if i < length es then
           (if is_valid (es ! i) \<and> strncmp_eq (data_id (es ! i)) did ACFS_MAX_DATA_ID_LEN
            then Some (Some i)
            else find_entry_from es (i + 1) n did)
         else None)
      else Some None)"
  by pat_completeness auto
termination
  by (relation "measure (\<lambda>(es, i, n, did). n - i)") auto

declare find_entry_from.simps [simp del]

definition acfs_find_entry :: "acfs_t \<Rightarrow> string \<Rightarrow> nat option option" where
  "acfs_find_entry acfs did =
     find_entry_from (entries acfs) 0 (unat (data_entries (header acfs))) did"

text \<open>
  \<open>acfs_calculate_clusters_needed\<close>: the sum is a \<open>size_t\<close>, the result a \<open>uint16_t\<close>.
\<close>

definition acfs_calculate_clusters_needed :: "u16 \<Rightarrow> nat \<Rightarrow> u16 option" where
  "acfs_calculate_clusters_needed cs sz =
     (if cs = 0 then None
      else Some (of_nat (((sz + unat cs - 1) mod 2 ^ 64) div unat cs)))"

text \<open>
  \<open>acfs_read_clusters\<close>: the second component of the result is the sequence of bytes the
  call has stored at \<open>data[0]\<close>, \<open>data[1]\<close>, ... (a whole cluster for each cluster read).
\<close>

function read_clusters_from :: "storage_device_t \<Rightarrow> nat \<Rightarrow> u16 list \<Rightarrow> nat \<Rightarrow> nat \<Rightarrow> byte list \<Rightarrow> (acfs_error_t \<times> byte list) option" where
  "read_clusters_from dev S cl i count acc =
     (if i < count then
        (if i < length cl then
           (case ops_read dev (cluster_addr dev S (cl ! i)) S of
              None \<Rightarrow> Some (ACFS_ERROR_IO_ERROR, acc)
            | Some bs \<Rightarrow> read_clusters_from dev S cl (i + 1) count (acc @ bs))
         else None)
      else Some (ACFS_OK, acc))"
  by pat_completeness auto
termination
  by (relation "measure (\<lambda>(dev, S, cl, i, count, acc). count - i)") auto

declare read_clusters_from.simps [simp del]

definition acfs_read_clusters :: "acfs_t \<Rightarrow> u16_ptr \<Rightarrow> u16 \<Rightarrow> (acfs_error_t \<times> byte list) option" where
  "acfs_read_clusters acfs cl count =
     (if count = 0 then Some (ACFS_OK, [])
      else case (storage acfs, cl) of
             (Some dev, ARRAY xs) \<Rightarrow>
               read_clusters_from dev (unat (cluster_size (header acfs))) xs 0 (unat count) []
           | _ \<Rightarrow> None)"

text \<open>\<open>acfs_write_clusters\<close>: cluster \<open>i\<close> of the list receives \<open>data[i*S .. i*S + S)\<close>.\<close>

function write_clusters_from :: "storage_device_t \<Rightarrow> nat \<Rightarrow> u16 list \<Rightarrow> (nat \<Rightarrow> byte) \<Rightarrow> nat \<Rightarrow> nat \<Rightarrow> (acfs_error_t \<times> storage_device_t) option" where
  "write_clusters_from dev S cl data i count =
     (if i < count then
        (if i < length cl then
           (case ops_write dev (cluster_addr dev S (cl ! i)) (mem_range data (i * S) (i * S + S)) of
              None \<Rightarrow> Some (ACFS_ERROR_IO_ERROR, dev)
            | Some dev' \<Rightarrow> write_clusters_from dev' S cl data (i + 1) count)
         else None)
      else Some (ACFS_OK, dev))"
  by pat_completeness auto
termination
  by (relation "measure (\<lambda>(dev, S, cl, data, i, count). count - i)") auto

declare write_clusters_from.simps [simp del]

definition acfs_write_clusters :: "acfs_t \<Rightarrow> u16_ptr \<Rightarrow> u16 \<Rightarrow> (nat \<Rightarrow> byte) \<Rightarrow> (acfs_error_t \<times> acfs_t) option" where
  "acfs_write_clusters acfs cl count data =
     (if count = 0 then Some (ACFS_OK, acfs)
      else case (storage acfs, cl) of
             (Some dev, ARRAY xs) \<Rightarrow>
               (case write_clusters_from dev (unat (cluster_size (header acfs))) xs data 0 (unat count) of
                  None \<Rightarrow> None
                | Some (ret, dev') \<Rightarrow> Some (ret, acfs\<lparr>storage := Some dev'\<rparr>))
           | _ \<Rightarrow> None)"

text \<open>\<open>acfs_load_header\<close> and \<open>acfs_save_header\<close>.\<close>

definition acfs_load_header :: "acfs_t \<Rightarrow> (acfs_error_t \<times> acfs_t) option" where
  "acfs_load_header acfs =
     (case storage acfs of
        None \<Rightarrow> None
      | Some dev \<Rightarrow>
          (case ops_read dev (unat (start_addr dev)) sizeof_header of
             None \<Rightarrow> Some (ACFS_ERROR_IO_ERROR, acfs)
           | Some bs \<Rightarrow>
               if magic (header_of_bytes bs) \<noteq> ACFS_MAGIC_NUMBER
               then Some (ACFS_ERROR_INVALID_FILESYSTEM, acfs\<lparr>header := header_of_bytes bs\<rparr>)
               else if acfs_crc32 (take (sizeof_header - 4) bs) \<noteq> header_crc32 (header_of_bytes bs)
               then Some (ACFS_ERROR_DATA_CORRUPTED, acfs\<lparr>header := header_of_bytes bs\<rparr>)
               else Some (ACFS_OK, acfs\<lparr>header := header_of_bytes bs\<rparr>)))"

definition header_with_crc :: "acfs_header_t \<Rightarrow> acfs_header_t" where
  "header_with_crc h = h\<lparr>header_crc32 := acfs_crc32 (take (sizeof_header - 4) (header_bytes h))\<rparr>"

definition acfs_save_header :: "acfs_t \<Rightarrow> (acfs_error_t \<times> acfs_t) option" where
  "acfs_save_header acfs =
     (case storage acfs of
        None \<Rightarrow> None
      | Some dev \<Rightarrow>
          (case ops_write dev (unat (start_addr dev)) (header_bytes (header_with_crc (header acfs))) of
             None \<Rightarrow> Some (ACFS_ERROR_IO_ERROR, acfs\<lparr>header := header_with_crc (header acfs)\<rparr>)
           | Some dev' \<Rightarrow>
               Some (ACFS_OK, acfs\<lparr>header := header_with_crc (header acfs), storage := Some dev'\<rparr>)))"

text \<open>
  \<open>acfs_save_entries\<close>: the first \<open>data_entries\<close> records go to \<open>start_addr + 20\<close>; the
  cluster list of entry \<open>i\<close> goes to the end of these records plus
  \<open>i * ACFS_MAX_CLUSTERS * sizeof(uint16_t)\<close>. Addresses are \<open>uint32_t\<close>.
\<close>

definition entries_addr :: "storage_device_t \<Rightarrow> nat" where
  "entries_addr dev = (unat (start_addr dev) + sizeof_header) mod 2 ^ 32"

definition entries_size :: "acfs_t \<Rightarrow> nat" where
  "entries_size acfs = (unat (data_entries (header acfs)) * sizeof_entry) mod 2 ^ 32"

definition cluster_list_addr :: "storage_device_t \<Rightarrow> nat \<Rightarrow> nat \<Rightarrow> nat" where
  "cluster_list_addr dev esize i =
     (entries_addr dev + esize + i * ACFS_MAX_CLUSTERS * 2) mod 2 ^ 32"

function save_cluster_lists :: "storage_device_t \<Rightarrow> acfs_data_entry_t list \<Rightarrow> nat \<Rightarrow> nat \<Rightarrow> nat \<Rightarrow> (acfs_error_t \<times> storage_device_t) option" where
  "save_cluster_lists dev es esize i n =
     (if i < n then
        (if i < length es then
           (if cluster_count (es ! i) > 0 \<and> cluster_list (es ! i) \<noteq> NULL then
              (case read_array (cluster_list (es ! i)) (unat (cluster_count (es ! i))) of
                 None \<Rightarrow> None
               | Some xs \<Rightarrow>
                   (case ops_write dev (cluster_list_addr dev esize i) (concat (map le16 xs)) of
                      None \<Rightarrow> Some (ACFS_ERROR_IO_ERROR, dev)
                    | Some dev' \<Rightarrow> save_cluster_lists dev' es esize (i + 1) n))
            else save_cluster_lists dev es esize (i + 1) n)
         else None)
      else Some (ACFS_OK, dev))"
  by pat_completeness auto
termination
  by (relation "measure (\<lambda>(dev, es, esize, i, n). n - i)") auto

declare save_cluster_lists.simps [simp del]

definition acfs_save_entries :: "acfs_t \<Rightarrow> (acfs_error_t \<times> acfs_t) option" where
  "acfs_save_entries acfs =
     (case storage acfs of
        None \<Rightarrow> None
      | Some dev \<Rightarrow>
          if unat (data_entries (header acfs)) > length (entries acfs) then None
          else
            (case ops_write dev (entries_addr dev)
                    (concat (map entry_bytes (take (unat (data_entries (header acfs))) (entries acfs)))) of
               None \<Rightarrow> Some (ACFS_ERROR_IO_ERROR, acfs)
             | Some dev' \<Rightarrow>
                 (case save_cluster_lists dev' (entries acfs) (entries_size acfs) 0
                         (unat (data_entries (header acfs))) of
                    None \<Rightarrow> None
                  | Some (ret, dev'') \<Rightarrow> Some (ret, acfs\<lparr>storage := Some dev''\<rparr>))))"

text \<open>
  \<open>acfs_load_entries\<close>: the records are read into the array as they are; each entry with
  \<open>cluster_count > 0\<close> then gets a fresh array, filled from the medium.
\<close>

fun chunks :: "nat \<Rightarrow> nat \<Rightarrow> 'a list \<Rightarrow> 'a list list" where
  "chunks 0 w xs = []"
| "chunks (Suc k) w xs = take w xs # chunks k w (drop w xs)"

function load_cluster_lists :: "storage_device_t \<Rightarrow> acfs_data_entry_t list \<Rightarrow> nat \<Rightarrow> nat \<Rightarrow> nat \<Rightarrow> (acfs_error_t \<times> acfs_data_entry_t list) option" where
  "load_cluster_lists dev es esize i n =
     (if i < n then
        (if i < length es then
           (if cluster_count (es ! i) > 0 then
              (case ops_read dev (cluster_list_addr dev esize i) (unat (cluster_count (es ! i)) * 2) of
                 None \<Rightarrow> Some (ACFS_ERROR_IO_ERROR, es[i := (es ! i)\<lparr>cluster_list := ARRAY (replicate (unat (cluster_count (es ! i))) 0)\<rparr>])
               | Some bs \<Rightarrow>
                   load_cluster_lists dev
                     (es[i := (es ! i)\<lparr>cluster_list := ARRAY (map rd16 (chunks (unat (cluster_count (es ! i))) 2 bs))\<rparr>])
                     esize (i + 1) n)
            else load_cluster_lists dev es esize (i + 1) n)
         else None)
      else Some (ACFS_OK, es))"
  by pat_completeness auto
termination
  by (relation "measure (\<lambda>(dev, es, esize, i, n). n - i)") auto

declare load_cluster_lists.simps [simp del]

definition acfs_load_entries :: "acfs_t \<Rightarrow> (acfs_error_t \<times> acfs_t) option" where
  "acfs_load_entries acfs =
     (case storage acfs of
        None \<Rightarrow> None
      | Some dev \<Rightarrow>
          if entries_size acfs = 0 then Some (ACFS_OK, acfs)
          else
            (case ops_read dev (entries_addr dev) (entries_size acfs) of
               None \<Rightarrow> Some (ACFS_ERROR_IO_ERROR, acfs)
             | Some bs \<Rightarrow>
                 if unat (data_entries (header acfs)) > length (entries acfs) then None
                 else
                   (case load_cluster_lists dev
                           (map entry_of_bytes (chunks (unat (data_entries (header acfs))) sizeof_entry bs)
                            @ drop (unat (data_entries (header acfs))) (entries acfs))
                           (entries_size acfs) 0 (unat (data_entries (header acfs))) of
                      None \<Rightarrow> None
                    | Some (ret, es) \<Rightarrow> Some (ret, acfs\<lparr>entries := es\<rparr>))))"

text \<open>\<open>acfs_init_bitmap\<close>.\<close>

fun mark_clusters :: "byte list \<Rightarrow> nat list \<Rightarrow> byte list option" where
  "mark_clusters bm [] = Some bm"
| "mark_clusters bm (c # cs) =
     (if c div 8 < length bm then mark_clusters (bitmap_set bm c) cs else None)"

fun mark_entries :: "byte list \<Rightarrow> acfs_data_entry_t list \<Rightarrow> byte list option" where
  "mark_entries bm [] = Some bm"
| "mark_entries bm (e # es) =
     (if is_valid e \<and> cluster_list e \<noteq> NULL then
        (case read_array (cluster_list e) (unat (cluster_count e)) of
           None \<Rightarrow> None
         | Some cs \<Rightarrow>
             (case mark_clusters bm (map unat cs) of
                None \<Rightarrow> None
              | Some bm' \<Rightarrow> mark_entries bm' es))
      else mark_entries bm es)"

definition bitmap_size :: "acfs_t \<Rightarrow> nat" where
  "bitmap_size acfs = (unat (total_clusters (header acfs)) + 7) div 8"

definition acfs_init_bitmap :: "acfs_t \<Rightarrow> (acfs_error_t \<times> acfs_t) option" where
  "acfs_init_bitmap acfs =
     (if bitmap_size acfs > length (cluster_bitmap acfs) then None
      else
        (case mark_clusters
                (replicate (bitmap_size acfs) 0 @ drop (bitmap_size acfs) (cluster_bitmap acfs))
                [0..<unat (sys_clusters (header acfs))] of
           None \<Rightarrow> None
         | Some bm \<Rightarrow>
             if unat (data_entries (header acfs)) > length (entries acfs) then None
             else
               (case mark_entries bm (take (unat (data_entries (header acfs))) (entries acfs)) of
                  None \<Rightarrow> None
                | Some bm' \<Rightarrow> Some (ACFS_OK, acfs\<lparr>cluster_bitmap := bm'\<rparr>))))"

section \<open>API functions\<close>

text \<open>
  \<open>max_entries_bound\<close> is the expression
  \<open>(sys_clusters * cluster_size - sizeof(acfs_header_t)) / sizeof(acfs_data_entry_t)\<close>,
  computed in \<open>size_t\<close>; \<open>acfs_init\<close> stores it in a \<open>uint16_t\<close>, \<open>acfs_write\<close> compares
  \<open>data_entries\<close> with it as it is.
\<close>

definition max_entries_bound :: "acfs_header_t \<Rightarrow> nat" where
  "max_entries_bound h =
     ((unat (sys_clusters h) * unat (cluster_size h) + 2 ^ 64 - sizeof_header) mod 2 ^ 64)
       div sizeof_entry"

text \<open>The loop of \<open>acfs_format\<close> that zeroes the clusters \<open>1 .. sys_clusters - 1\<close>.\<close>

fun format_zero :: "storage_device_t \<Rightarrow> nat \<Rightarrow> nat list \<Rightarrow> acfs_error_t \<times> storage_device_t" where
  "format_zero dev S [] = (ACFS_OK, dev)"
| "format_zero dev S (i # rest) =
     (case ops_write dev ((unat (start_addr dev) + i * S) mod 2 ^ 32) (replicate S 0) of
        None \<Rightarrow> (ACFS_ERROR_IO_ERROR, dev)
      | Some dev' \<Rightarrow> format_zero dev' S rest)"

definition format_total_clusters :: "storage_device_t \<Rightarrow> acfs_config_t \<Rightarrow> u16" where
  "format_total_clusters dev cfg = of_nat (unat (dev_size dev) div unat (cfg_cluster_size cfg))"

definition format_sys_clusters :: "acfs_config_t \<Rightarrow> u16" where
  "format_sys_clusters cfg =
     (if reserved_clusters cfg = 0 then
        (if (of_nat ((sizeof_header + unat (cfg_cluster_size cfg) - 1) div unat (cfg_cluster_size cfg)) :: u16) < 2
         then 2
         else of_nat ((sizeof_header + unat (cfg_cluster_size cfg) - 1) div unat (cfg_cluster_size cfg)))
      else reserved_clusters cfg)"

definition format_header :: "storage_device_t \<Rightarrow> acfs_config_t \<Rightarrow> acfs_header_t" where
  "format_header dev cfg =
     header_with_crc
       \<lparr>magic = ACFS_MAGIC_NUMBER,
        version = of_nat (ACFS_VERSION_MAJOR * 256 + ACFS_VERSION_MINOR),
        cluster_size = cfg_cluster_size cfg,
        total_clusters = format_total_clusters dev cfg,
        sys_clusters = format_sys_clusters cfg,
        data_entries = 0,
        free_clusters = format_total_clusters dev cfg - format_sys_clusters cfg,
        header_crc32 = 0\<rparr>"

definition acfs_format :: "acfs_t \<Rightarrow> acfs_config_t \<Rightarrow> (acfs_error_t \<times> acfs_t) option" where
  "acfs_format acfs cfg =
     (case storage acfs of
        None \<Rightarrow> Some (ACFS_ERROR_INVALID_PARAM, acfs)
      | Some dev \<Rightarrow>
          if cfg_cluster_size cfg = 0 then None
          else if format_total_clusters dev cfg = 0 then Some (ACFS_ERROR_INVALID_PARAM, acfs)
          else if format_sys_clusters cfg \<ge> format_total_clusters dev cfg
          then Some (ACFS_ERROR_INVALID_PARAM, acfs)
          else
            (case acfs_save_header (acfs\<lparr>header := format_header dev cfg\<rparr>) of
               None \<Rightarrow> None
             | Some (ret, acfs1) \<Rightarrow>
                 if ret \<noteq> ACFS_OK then Some (ret, acfs1)
                 else
                   (case storage acfs1 of
                      None \<Rightarrow> None
                    | Some dev1 \<Rightarrow>
                        (case format_zero dev1 (unat (cfg_cluster_size cfg))
                                [1..<unat (format_sys_clusters cfg)] of
                           (ret', dev2) \<Rightarrow> Some (ret', acfs1\<lparr>storage := Some dev2\<rparr>)))))"

text \<open>
  \<open>acfs_init\<close>. On the paths that free the arrays again, the model leaves them empty.
\<close>

definition init_alloc :: "acfs_t \<Rightarrow> acfs_t" where
  "init_alloc acfs =
     acfs\<lparr>entries := replicate (unat (of_nat (max_entries_bound (header acfs)) :: u16)) zero_entry,
          cluster_bitmap := replicate (bitmap_size acfs) 0\<rparr>"

definition init_mount :: "acfs_t \<Rightarrow> (acfs_error_t \<times> acfs_t) option" where
  "init_mount acfs =
     (case acfs_load_entries (init_alloc acfs) of
        None \<Rightarrow> None
      | Some (ret, acfs1) \<Rightarrow>
          if ret \<noteq> ACFS_OK then Some (ret, acfs1\<lparr>entries := [], cluster_bitmap := []\<rparr>)
          else
            (case acfs_init_bitmap acfs1 of
               None \<Rightarrow> None
             | Some (ret', acfs2) \<Rightarrow>
                 if ret' \<noteq> ACFS_OK then Some (ret', acfs2\<lparr>entries := [], cluster_bitmap := []\<rparr>)
                 else Some (ACFS_OK, acfs2\<lparr>initialized := True\<rparr>)))"

definition init_format :: "acfs_t \<Rightarrow> acfs_config_t \<Rightarrow> (acfs_error_t \<times> acfs_t) option" where
  "init_format acfs cfg =
     (if format_if_invalid cfg then
        (case acfs_format acfs cfg of
           None \<Rightarrow> None
         | Some (ret, acfs1) \<Rightarrow> if ret \<noteq> ACFS_OK then Some (ret, acfs1) else init_mount acfs1)
      else Some (ACFS_ERROR_INVALID_FILESYSTEM, acfs))"

definition acfs_init :: "acfs_t \<Rightarrow> storage_device_t \<Rightarrow> acfs_config_t \<Rightarrow> (acfs_error_t \<times> acfs_t) option" where
  "acfs_init acfs dev cfg =
     (if initialized acfs then Some (ACFS_ERROR_ALREADY_INITIALIZED, acfs)
      else if unat (cfg_cluster_size cfg) < ACFS_CLUSTER_SIZE_MIN
              \<or> unat (cfg_cluster_size cfg) > ACFS_CLUSTER_SIZE_MAX
              \<or> cfg_cluster_size cfg AND (cfg_cluster_size cfg - 1) \<noteq> 0
      then Some (ACFS_ERROR_INVALID_PARAM, acfs)
      else
        (case acfs_load_header (zero_acfs\<lparr>storage := Some dev\<rparr>) of
           None \<Rightarrow> None
         | Some (ret, acfs1) \<Rightarrow>
             if ret = ACFS_OK then
               (if magic (header acfs1) \<noteq> ACFS_MAGIC_NUMBER then init_format acfs1 cfg
                else if cluster_size (header acfs1) \<noteq> cfg_cluster_size cfg
                then init_format acfs1 cfg
                else init_mount acfs1)
             else init_format acfs1 cfg))"

text \<open>
  \<open>acfs_deinit\<close>: the loop reads \<open>entries[0 .. data_entries)\<close> and passes every non-null
  \<open>cluster_list\<close> to \<open>free\<close>; then the arrays are freed and the instance is zeroed.
\<close>

definition acfs_deinit :: "acfs_t \<Rightarrow> (acfs_error_t \<times> acfs_t) option" where
  "acfs_deinit acfs =
     (if \<not> initialized acfs then Some (ACFS_ERROR_NOT_INITIALIZED, acfs)
      else if unat (data_entries (header acfs)) > length (entries acfs) then None
      else if \<not> list_all (\<lambda>e. free_defined (cluster_list e))
                     (take (unat (data_entries (header acfs))) (entries acfs))
      then None
      else Some (ACFS_OK, zero_acfs))"

text \<open>
  \<open>acfs_write\<close>. \<open>acfs_write_data\<close> is its common tail (from \<open>entry->data_size = size\<close> on),
  \<open>acfs_write_update\<close> the branch for an existing entry, \<open>acfs_write_create\<close> the branch
  for a new one. \<open>malloc(clusters_needed * sizeof(uint16_t))\<close> gives a non-null array,
  also for \<open>clusters_needed = 0\<close>, which \<open>acfs_allocate_clusters\<close> then fills. The branch
  for an existing entry passes the entry's old \<open>cluster_list\<close> to \<open>free\<close>.
\<close>

definition acfs_write_data :: "acfs_t \<Rightarrow> nat \<Rightarrow> (nat \<Rightarrow> byte) \<Rightarrow> nat \<Rightarrow> (acfs_error_t \<times> acfs_t) option" where
  "acfs_write_data acfs idx data sz =
     (case acfs_write_clusters
             (acfs\<lparr>entries := (entries acfs)
                [idx := (entries acfs ! idx)\<lparr>data_size := of_nat sz,
                                             data_crc32 := acfs_crc32 (mem_range data 0 sz)\<rparr>]\<rparr>)
             (cluster_list (entries acfs ! idx)) (cluster_count (entries acfs ! idx)) data of
        None \<Rightarrow> None
      | Some (ret, acfs1) \<Rightarrow>
          if ret \<noteq> ACFS_OK then Some (ret, acfs1)
          else
            (case acfs_save_header acfs1 of
               None \<Rightarrow> None
             | Some (ret', acfs2) \<Rightarrow>
                 if ret' \<noteq> ACFS_OK then Some (ret', acfs2) else acfs_save_entries acfs2))"

definition acfs_write_update :: "acfs_t \<Rightarrow> nat \<Rightarrow> u16 \<Rightarrow> (nat \<Rightarrow> byte) \<Rightarrow> nat \<Rightarrow> (acfs_error_t \<times> acfs_t) option" where
  "acfs_write_update acfs idx k data sz =
     (if cluster_count (entries acfs ! idx) \<noteq> k then
        (case acfs_free_clusters acfs (cluster_list (entries acfs ! idx))
                (cluster_count (entries acfs ! idx)) of
           None \<Rightarrow> None
         | Some acfs1 \<Rightarrow>
             if \<not> free_defined (cluster_list (entries acfs ! idx)) then None
             else
               (case acfs_allocate_clusters acfs1 k of
                  None \<Rightarrow> None
                | Some (ret, acfs2, cl) \<Rightarrow>
                    if ret \<noteq> ACFS_OK
                    then Some (ret, acfs2\<lparr>entries := (entries acfs2)
                                 [idx := (entries acfs2 ! idx)\<lparr>cluster_list := NULL\<rparr>]\<rparr>)
                    else acfs_write_data
                           (acfs2\<lparr>entries := (entries acfs2)
                              [idx := (entries acfs2 ! idx)\<lparr>cluster_list := ARRAY cl,
                                                            cluster_count := k\<rparr>]\<rparr>)
                           idx data sz))
      else acfs_write_data acfs idx data sz)"

definition acfs_write_create :: "acfs_t \<Rightarrow> string \<Rightarrow> u16 \<Rightarrow> (nat \<Rightarrow> byte) \<Rightarrow> nat \<Rightarrow> (acfs_error_t \<times> acfs_t) option" where
  "acfs_write_create acfs did k data sz =
     (if unat (data_entries (header acfs)) \<ge> max_entries_bound (header acfs)
      then Some (ACFS_ERROR_CLUSTER_FULL, acfs)
      else if \<not> unat (data_entries (header acfs)) < length (entries acfs) then None
      else
        (case acfs_allocate_clusters
                (acfs\<lparr>entries := (entries acfs)
                   [unat (data_entries (header acfs)) :=
                      (entries acfs ! unat (data_entries (header acfs)))\<lparr>data_id := strncpy_id did\<rparr>]\<rparr>)
                k of
           None \<Rightarrow> None
         | Some (ret, acfs1, cl) \<Rightarrow>
             if ret \<noteq> ACFS_OK
             then Some (ret, acfs1\<lparr>entries := (entries acfs1)
                          [unat (data_entries (header acfs)) :=
                             (entries acfs1 ! unat (data_entries (header acfs)))\<lparr>cluster_list := NULL\<rparr>]\<rparr>)
             else acfs_write_data
                    (acfs1\<lparr>entries := (entries acfs1)
                       [unat (data_entries (header acfs)) :=
                          (entries acfs1 ! unat (data_entries (header acfs)))
                            \<lparr>cluster_list := ARRAY cl, cluster_count := k, is_valid := True\<rparr>],
                      header := (header acfs1)\<lparr>data_entries := data_entries (header acfs1) + 1\<rparr>\<rparr>)
                    (unat (data_entries (header acfs))) data sz))"

definition acfs_write :: "acfs_t \<Rightarrow> string option \<Rightarrow> (nat \<Rightarrow> byte) option \<Rightarrow> nat \<Rightarrow> (acfs_error_t \<times> acfs_t) option" where
  "acfs_write acfs data_id_p data_p sz =
     (case (data_id_p, data_p) of
        (Some did, Some data) \<Rightarrow>
          if sz = 0 then Some (ACFS_ERROR_INVALID_PARAM, acfs)
          else if \<not> initialized acfs then Some (ACFS_ERROR_NOT_INITIALIZED, acfs)
          else if strlen did \<ge> ACFS_MAX_DATA_ID_LEN then Some (ACFS_ERROR_INVALID_PARAM, acfs)
          else
            (case acfs_calculate_clusters_needed (cluster_size (header acfs)) sz of
               None \<Rightarrow> None
             | Some k \<Rightarrow>
                 (case acfs_find_entry acfs did of
                    None \<Rightarrow> None
                  | Some (Some idx) \<Rightarrow> acfs_write_update acfs idx k data sz
                  | Some None \<Rightarrow> acfs_write_create acfs did k data sz))
      | _ \<Rightarrow> Some (ACFS_ERROR_INVALID_PARAM, acfs))"

text \<open>
  \<open>acfs_read(acfs, data_id, data, size, actual_size)\<close>. The result carries the error code,
  the state as the call leaves it, the bytes stored at \<open>data[0]\<close>, \<open>data[1]\<close>, ... and the
  value stored in \<open>*actual_size\<close>, if any (\<open>want_size\<close> says that \<open>actual_size\<close> is not
  null). The CRC is taken over \<open>data[0 .. data_size)\<close> after these stores.
\<close>

record read_result =
  read_ret :: acfs_error_t
  read_state :: acfs_t
  read_stored :: "byte list"
  read_actual_size :: "nat option"

definition buffer_after :: "(nat \<Rightarrow> byte) \<Rightarrow> byte list \<Rightarrow> nat \<Rightarrow> byte" where
  "buffer_after buf stored j = (if j < length stored then stored ! j else buf j)"

definition acfs_read :: "acfs_t \<Rightarrow> string option \<Rightarrow> (nat \<Rightarrow> byte) option \<Rightarrow> nat \<Rightarrow> bool \<Rightarrow> read_result option" where
  "acfs_read acfs data_id_p data_p sz want_size =
     (case (data_id_p, data_p) of
        (Some did, Some buf) \<Rightarrow>
          if \<not> initialized acfs
          then Some \<lparr>read_ret = ACFS_ERROR_NOT_INITIALIZED, read_state = acfs, read_stored = [],
                     read_actual_size = None\<rparr>
          else
            (case acfs_find_entry acfs did of
               None \<Rightarrow> None
             | Some None \<Rightarrow>
                 Some \<lparr>read_ret = ACFS_ERROR_DATA_NOT_FOUND, read_state = acfs, read_stored = [],
                       read_actual_size = None\<rparr>
             | Some (Some idx) \<Rightarrow>
                 if \<not> is_valid (entries acfs ! idx)
                 then Some \<lparr>read_ret = ACFS_ERROR_DATA_NOT_FOUND, read_state = acfs,
                            read_stored = [], read_actual_size = None\<rparr>
                 else if sz < unat (data_size (entries acfs ! idx))
                 then Some \<lparr>read_ret = ACFS_ERROR_INVALID_PARAM, read_state = acfs, read_stored = [],
                            read_actual_size =
                              (if want_size then Some (unat (data_size (entries acfs ! idx))) else None)\<rparr>
                 else
                   (case acfs_read_clusters acfs (cluster_list (entries acfs ! idx))
                           (cluster_count (entries acfs ! idx)) of
                      None \<Rightarrow> None
                    | Some (ret, bs) \<Rightarrow>
                        if ret \<noteq> ACFS_OK
                        then Some \<lparr>read_ret = ret, read_state = acfs, read_stored = bs,
                                   read_actual_size = None\<rparr>
                        else if acfs_crc32
                                  (take (unat (data_size (entries acfs ! idx))) bs
                                   @ mem_range buf (length bs) (unat (data_size (entries acfs ! idx))))
                                \<noteq> data_crc32 (entries acfs ! idx)
                        then Some \<lparr>read_ret = ACFS_ERROR_CRC_MISMATCH, read_state = acfs,
                                   read_stored = bs, read_actual_size = None\<rparr>
                        else Some \<lparr>read_ret = ACFS_OK, read_state = acfs, read_stored = bs,
                                   read_actual_size =
                                     (if want_size then Some (unat (data_size (entries acfs ! idx)))
                                      else None)\<rparr>))
      | _ \<Rightarrow> Some \<lparr>read_ret = ACFS_ERROR_INVALID_PARAM, read_state = acfs, read_stored = [],
                   read_actual_size = None\<rparr>)"

text \<open>
  \<open>acfs_delete\<close>; \<open>shift_entries\<close> is its loop \<open>entries[i] = entries[i + 1]\<close>. The entry's
  \<open>cluster_list\<close> is passed to \<open>free\<close> after its clusters have been released.
\<close>

function shift_entries :: "acfs_data_entry_t list \<Rightarrow> nat \<Rightarrow> nat \<Rightarrow> acfs_data_entry_t list option" where
  "shift_entries es i lim =
     (if i < lim then
        (if i + 1 < length es then shift_entries (es[i := es ! (i + 1)]) (i + 1) lim else None)
      else Some es)"
  by pat_completeness auto
termination
  by (relation "measure (\<lambda>(es, i, lim). lim - i)") auto

declare shift_entries.simps [simp del]

definition acfs_delete :: "acfs_t \<Rightarrow> string option \<Rightarrow> (acfs_error_t \<times> acfs_t) option" where
  "acfs_delete acfs data_id_p =
     (case data_id_p of
        None \<Rightarrow> Some (ACFS_ERROR_INVALID_PARAM, acfs)
      | Some did \<Rightarrow>
          if \<not> initialized acfs then Some (ACFS_ERROR_NOT_INITIALIZED, acfs)
          else
            (case acfs_find_entry acfs did of
               None \<Rightarrow> None
             | Some None \<Rightarrow> Some (ACFS_ERROR_DATA_NOT_FOUND, acfs)
             | Some (Some idx) \<Rightarrow>
                 if \<not> is_valid (entries acfs ! idx) then Some (ACFS_ERROR_DATA_NOT_FOUND, acfs)
                 else
                   (case acfs_free_clusters acfs (cluster_list (entries acfs ! idx))
                           (cluster_count (entries acfs ! idx)) of
                      None \<Rightarrow> None
                    | Some acfs1 \<Rightarrow>
                        if \<not> free_defined (cluster_list (entries acfs ! idx)) then None
                        else
                        (case shift_entries (entries acfs1) idx
                                (unat (data_entries (header acfs1)) - 1) of
                           None \<Rightarrow> None
                         | Some es \<Rightarrow>
                             if \<not> unat (data_entries (header acfs1) - 1) < length es then None
                             else
                               (case acfs_save_header
                                       (acfs1\<lparr>entries := es[unat (data_entries (header acfs1) - 1) := zero_entry],
                                              header := (header acfs1)
                                                \<lparr>data_entries := data_entries (header acfs1) - 1\<rparr>\<rparr>) of
                                  None \<Rightarrow> None
                                | Some (ret, acfs2) \<Rightarrow>
                                    if ret \<noteq> ACFS_OK then Some (ret, acfs2)
                                    else acfs_save_entries acfs2)))))"

text \<open>\<open>acfs_exists\<close> and \<open>acfs_get_size\<close>.\<close>

definition acfs_exists :: "acfs_t \<Rightarrow> string option \<Rightarrow> bool option" where
  "acfs_exists acfs data_id_p =
     (case data_id_p of
        None \<Rightarrow> Some False
      | Some did \<Rightarrow>
          if \<not> initialized acfs then Some False
          else
            (case acfs_find_entry acfs did of
               None \<Rightarrow> None
             | Some None \<Rightarrow> Some False
             | Some (Some idx) \<Rightarrow> Some (is_valid (entries acfs ! idx))))"

definition acfs_get_size :: "acfs_t \<Rightarrow> string option \<Rightarrow> (acfs_error_t \<times> nat option) option" where
  "acfs_get_size acfs data_id_p =
     (case data_id_p of
        None \<Rightarrow> Some (ACFS_ERROR_INVALID_PARAM, None)
      | Some did \<Rightarrow>
          if \<not> initialized acfs then Some (ACFS_ERROR_NOT_INITIALIZED, None)
          else
            (case acfs_find_entry acfs did of
               None \<Rightarrow> None
             | Some None \<Rightarrow> Some (ACFS_ERROR_DATA_NOT_FOUND, None)
             | Some (Some idx) \<Rightarrow>
                 if \<not> is_valid (entries acfs ! idx) then Some (ACFS_ERROR_DATA_NOT_FOUND, None)
                 else Some (ACFS_OK, Some (unat (data_size (entries acfs ! idx))))))"

section \<open>Notions used in the statements\<close>

text \<open>The free clusters of the data area, in ascending order.\<close>

definition free_cluster_indices :: "acfs_t \<Rightarrow> nat list" where
  "free_cluster_indices acfs =
     filter (\<lambda>i. \<not> bitmap_test (cluster_bitmap acfs) i)
       [unat (sys_clusters (header acfs))..<unat (total_clusters (header acfs))]"

text \<open>
  What \<open>acfs_init\<close> establishes about the heap arrays of a mounted filesystem: the
  directory has the capacity computed from the header (stored in a \<open>uint16_t\<close>), and the
  bitmap has one bit for each cluster.
\<close>

definition acfs_mounted :: "acfs_t \<Rightarrow> bool" where
  "acfs_mounted acfs =
     (initialized acfs \<and> storage acfs \<noteq> None
      \<and> length (entries acfs) = unat (of_nat (max_entries_bound (header acfs)) :: u16)
      \<and> length (cluster_bitmap acfs) = bitmap_size acfs)"

text \<open>The cluster counts of the live entries (the first \<open>data_entries\<close> slots that are valid).\<close>

definition live_entries :: "acfs_t \<Rightarrow> acfs_data_entry_t list" where
  "live_entries acfs = filter is_valid (take (unat (data_entries (header acfs))) (entries acfs))"

definition live_cluster_sum :: "acfs_t \<Rightarrow> nat" where
  "live_cluster_sum acfs = sum_list (map (\<lambda>e. unat (cluster_count e)) (live_entries acfs))"

text \<open>
  The bytes of cluster \<open>c\<close> on the medium, and what reading the clusters \<open>cs\<close> in order
  stores in the caller's buffer.
\<close>

definition cluster_bytes :: "storage_device_t \<Rightarrow> nat \<Rightarrow> u16 \<Rightarrow> byte list" where
  "cluster_bytes dev S c = take S (drop (cluster_addr dev S c) (medium dev))"

definition stored_clusters :: "acfs_t \<Rightarrow> u16 list \<Rightarrow> byte list" where
  "stored_clusters acfs cs =
     (case storage acfs of
        None \<Rightarrow> []
      | Some dev \<Rightarrow> concat (map (cluster_bytes dev (unat (cluster_size (header acfs)))) cs))"

text \<open>
  Whether the stores of a read stay inside a caller's buffer of \<open>buf_len\<close> bytes, and
  whether a read has delivered the \<open>n\<close> bytes \<open>data[0 .. n)\<close>: it returns \<open>ACFS_OK\<close>, the
  buffer holds these bytes afterwards, and \<open>*actual_size\<close> is \<open>n\<close>.
\<close>

definition stores_within :: "read_result \<Rightarrow> nat \<Rightarrow> bool" where
  "stores_within r buf_len = (length (read_stored r) \<le> buf_len)"

definition read_delivers :: "read_result \<Rightarrow> (nat \<Rightarrow> byte) \<Rightarrow> (nat \<Rightarrow> byte) \<Rightarrow> nat \<Rightarrow> bool" where
  "read_delivers r buf data n =
     (read_ret r = ACFS_OK
      \<and> (\<forall>j<n. buffer_after buf (read_stored r) j = data j)
      \<and> read_actual_size r = Some n)"


text \<open>
  An entry whose cluster list \<open>acfs_save_entries\<close> can read: the list is written only for
  \<open>cluster_count > 0\<close> and a non-null pointer, and then \<open>cluster_count\<close> elements are read.
\<close>

definition list_readable :: "acfs_data_entry_t \<Rightarrow> bool" where
  "list_readable e =
     (cluster_count e > 0 \<and> cluster_list e \<noteq> NULL
        \<longrightarrow> read_array (cluster_list e) (unat (cluster_count e)) \<noteq> None)"

text \<open>The test of \<open>acfs_find_entry\<close> on one entry.\<close>

definition entry_matches :: "acfs_data_entry_t \<Rightarrow> string \<Rightarrow> bool" where
  "entry_matches e did = (is_valid e \<and> strncmp_eq (data_id e) did ACFS_MAX_DATA_ID_LEN)"

section \<open>A small filesystem, for concrete instances\<close>

text \<open>
  A 192-byte EEPROM (\<open>acfs_create_eeprom_device(&dev, 0, 192)\<close>) mounted with 64-byte
  clusters: three clusters, two of them reserved, one directory slot.
  \<open>ex_fs\<close> is the state after \<open>acfs_init\<close>, \<open>ex_fs_a\<close> the state after then writing the
  one byte \<open>0x01\<close> under the id \<open>"a"\<close>.
\<close>

definition ex_dev :: storage_device_t where
  "ex_dev = \<lparr>start_addr = 0, dev_size = 192, dev_type = STORAGE_TYPE_EEPROM,
              ops = EEPROM_OPS, need_erase = False, erase_block_size = 0,
              medium = replicate 192 0xFF\<rparr>"

definition ex_cfg :: acfs_config_t where
  "ex_cfg = \<lparr>cfg_cluster_size = 64, reserved_clusters = 0, format_if_invalid = True,
              enable_crc_check = True\<rparr>"

definition ones :: "nat \<Rightarrow> byte" where
  "ones i = 1"

definition zeros :: "nat \<Rightarrow> byte" where
  "zeros i = 0"

definition ex_header :: acfs_header_t where
  "ex_header = \<lparr>magic = 0x41434653, version = 0x0100, cluster_size = 64, total_clusters = 3,
                 sys_clusters = 2, data_entries = 0, free_clusters = 1,
                 header_crc32 = 0x3D804D81\<rparr>"

definition ex_fs :: acfs_t where
  "ex_fs = \<lparr>storage = Some (ex_dev\<lparr>medium :=
                [0x53, 0x46, 0x43, 0x41, 0, 1, 64, 0, 3, 0, 2, 0, 0, 0, 1, 0, 0x81, 0x4D, 0x80, 0x3D]
                @ replicate 44 0xFF @ replicate 64 0 @ replicate 64 0xFF\<rparr>),
             header = ex_header, entries = [zero_entry], cluster_bitmap = [3],
             initialized = True\<rparr>"

definition ex_entry_a :: acfs_data_entry_t where
  "ex_entry_a = \<lparr>data_id = CHR ''a'' # replicate 31 (CHR 0x00), data_size = 1, cluster_count = 1,
                  cluster_list = ARRAY [2], data_crc32 = 0xA505DF1B, is_valid = True\<rparr>"

text \<open>
  The filesystem with the single entry \<open>e\<close> in cluster 2, whose 64 bytes are \<open>0x01\<close>, as
  \<open>acfs_write\<close> leaves it: header, the entry's record, its cluster list and the data.
\<close>

definition ex_fs_with :: "acfs_data_entry_t \<Rightarrow> acfs_t" where
  "ex_fs_with e =
     \<lparr>storage = Some (ex_dev\<lparr>medium :=
          [0x53, 0x46, 0x43, 0x41, 0, 1, 64, 0, 3, 0, 2, 0, 1, 0, 0, 0, 0xA5, 0x1B, 0x27, 0x9C]
          @ entry_bytes e @ [2, 0] @ replicate 50 0 @ replicate 64 1\<rparr>),
      header = ex_header\<lparr>data_entries := 1, free_clusters := 0, header_crc32 := 0x9C271BA5\<rparr>,
      entries = [e], cluster_bitmap = [7], initialized = True\<rparr>"

definition ex_fs_a :: acfs_t where
  "ex_fs_a = ex_fs_with ex_entry_a"

text \<open>
  \<open>ex_fs_bad\<close>: the state after the rewrite of \<open>"a"\<close> with 65 bytes has failed in the
  allocator. \<open>ex_fs_d\<close>: the state after deleting \<open>"a"\<close> from \<open>ex_fs_a\<close> (the record
  of the deleted entry stays on the medium behind the header).
\<close>

definition ex_fs_bad :: acfs_t where
  "ex_fs_bad = ex_fs_a\<lparr>cluster_bitmap := [3],
                        header := (header ex_fs_a)\<lparr>free_clusters := 1\<rparr>,
                        entries := [ex_entry_a\<lparr>cluster_list := NULL\<rparr>]\<rparr>"

definition ex_fs_d :: acfs_t where
  "ex_fs_d = \<lparr>storage = Some (ex_dev\<lparr>medium :=
                  [0x53, 0x46, 0x43, 0x41, 0, 1, 64, 0, 3, 0, 2, 0, 0, 0, 1, 0, 0x81, 0x4D, 0x80, 0x3D]
                  @ entry_bytes ex_entry_a @ [2, 0] @ replicate 50 0 @ replicate 64 1\<rparr>),
               header = ex_header, entries = [zero_entry], cluster_bitmap = [3],
               initialized = True\<rparr>"

text \<open>
  \<open>ex_fs_big\<close>: the state after writing to \<open>ex_fs\<close>, under \<open>"a"\<close>, 4194305 = 65536 * 64 + 1
  bytes \<open>0x01\<close>. \<open>ex_fs_empty_id\<close>: the state after writing one byte under the empty id.
\<close>

definition ex_entry_big :: acfs_data_entry_t where
  "ex_entry_big = ex_entry_a\<lparr>data_size := 4194305,
                               data_crc32 := acfs_crc32 (mem_range ones 0 4194305)\<rparr>"

definition ex_fs_big :: acfs_t where
  "ex_fs_big = ex_fs_with ex_entry_big"

definition ex_fs_empty_id :: acfs_t where
  "ex_fs_empty_id = ex_fs_with (ex_entry_a\<lparr>data_id := replicate 32 (CHR 0x00)\<rparr>)"

text \<open>
  Two damaged variants of \<open>ex_fs_a\<close>: in \<open>ex_fs_corrupt\<close> the first data byte on the medium
  (offset 128) has been overwritten with 0; in \<open>ex_fs_beyond\<close> the entry's cluster list
  names cluster 3, which lies beyond the 192 bytes of the medium.
\<close>

definition ex_fs_corrupt :: acfs_t where
  "ex_fs_corrupt =
     ex_fs_a\<lparr>storage := Some (ex_dev\<lparr>medium :=
        [0x53, 0x46, 0x43, 0x41, 0, 1, 64, 0, 3, 0, 2, 0, 1, 0, 0, 0, 0xA5, 0x1B, 0x27, 0x9C]
        @ entry_bytes ex_entry_a @ [2, 0] @ replicate 50 0 @ [0] @ replicate 63 1\<rparr>)\<rparr>"

definition ex_fs_beyond :: acfs_t where
  "ex_fs_beyond = ex_fs_a\<lparr>entries := [ex_entry_a\<lparr>cluster_list := ARRAY [3]\<rparr>]\<rparr>"

definition read_result_of :: "acfs_error_t \<Rightarrow> acfs_t \<Rightarrow> byte list \<Rightarrow> nat option \<Rightarrow> read_result" where
  "read_result_of ret acfs stored actual =
     \<lparr>read_ret = ret, read_state = acfs, read_stored = stored, read_actual_size = actual\<rparr>"

text \<open>
  A 2048-byte EEPROM with the same configuration (32 clusters, two of them reserved, one
  directory slot), and the state after \<open>acfs_init\<close> on it.
\<close>

definition ex_dev_2k :: storage_device_t where
  "ex_dev_2k = ex_dev\<lparr>dev_size := 2048, medium := replicate 2048 0xFF\<rparr>"

definition ex_fs_2k :: acfs_t where
  "ex_fs_2k = \<lparr>storage = Some (ex_dev_2k\<lparr>medium :=
                [0x53, 0x46, 0x43, 0x41, 0, 1, 64, 0, 32, 0, 2, 0, 0, 0, 30, 0, 0xAA, 0x26, 0x23, 0x87]
                @ replicate 44 0xFF @ replicate 64 0 @ replicate 1920 0xFF\<rparr>),
             header = ex_header\<lparr>total_clusters := 32, free_clusters := 30, header_crc32 := 0x872326AA\<rparr>,
             entries = [zero_entry], cluster_bitmap = [3, 0, 0, 0],
             initialized = True\<rparr>"

text \<open>
  Two states on the 2048-byte device, for the allocator. In \<open>ex_fs_frag\<close> cluster 3 is in
  use, so 29 clusters are free and the lowest free ones are 2, 4 and 5. In \<open>ex_fs_short\<close>
  only the clusters 2 and 28 have clear bits while \<open>free_clusters\<close> still says 30, so that
  a request for three clusters passes the test of the counter and fails in the scan.
\<close>

definition ex_fs_frag :: acfs_t where
  "ex_fs_frag = ex_fs_2k\<lparr>cluster_bitmap := [0x0B, 0, 0, 0],
                         header := (header ex_fs_2k)\<lparr>free_clusters := 29\<rparr>\<rparr>"

definition ex_fs_short :: acfs_t where
  "ex_fs_short = ex_fs_2k\<lparr>cluster_bitmap := [0xFB, 0xFF, 0xFF, 0xEF]\<rparr>"

text \<open>
  A larger EEPROM, for a directory with more than one entry: the cluster list of entry 1
  is written \<open>ACFS_MAX_CLUSTERS * sizeof(uint16_t) = 131070\<close> bytes behind that of entry 0,
  so the device has 131264 bytes (2051 clusters of 64 bytes); three clusters are reserved,
  which gives three directory slots. \<open>ex_fs_128k\<close> is the state after \<open>acfs_init\<close>,
  \<open>ex_fs_b\<close> the state after then writing the one byte \<open>0x01\<close> under the id \<open>"b"\<close>.
\<close>

definition ex_dev_128k :: storage_device_t where
  "ex_dev_128k = ex_dev\<lparr>dev_size := 131264, medium := replicate 131264 0xFF\<rparr>"

definition ex_cfg_3 :: acfs_config_t where
  "ex_cfg_3 = ex_cfg\<lparr>reserved_clusters := 3\<rparr>"

definition ex_fs_128k :: acfs_t where
  "ex_fs_128k = \<lparr>storage = Some (ex_dev_128k\<lparr>medium :=
                [0x53, 0x46, 0x43, 0x41, 0, 1, 64, 0, 3, 8, 3, 0, 0, 0, 0, 8, 0x30, 0x69, 0xF3, 0xD2]
                @ replicate 44 0xFF @ replicate 128 0 @ replicate 131072 0xFF\<rparr>),
             header = ex_header\<lparr>total_clusters := 2051, sys_clusters := 3, free_clusters := 2048,
                                header_crc32 := 0xD2F36930\<rparr>,
             entries = [zero_entry, zero_entry, zero_entry],
             cluster_bitmap = 7 # replicate 256 0,
             initialized = True\<rparr>"

definition ex_entry_b :: acfs_data_entry_t where
  "ex_entry_b = ex_entry_a\<lparr>data_id := CHR ''b'' # replicate 31 (CHR 0x00), cluster_list := ARRAY [3]\<rparr>"

definition ex_fs_b :: acfs_t where
  "ex_fs_b = \<lparr>storage = Some (ex_dev_128k\<lparr>medium :=
                [0x53, 0x46, 0x43, 0x41, 0, 1, 64, 0, 3, 8, 3, 0, 1, 0, 0xFF, 7, 0xB6, 0xEE, 0xD4, 0x69]
                @ entry_bytes ex_entry_b @ [3, 0] @ replicate 114 0 @ replicate 64 1
                @ replicate 131008 0xFF\<rparr>),
             header = ex_header\<lparr>total_clusters := 2051, sys_clusters := 3, data_entries := 1,
                                free_clusters := 2047, header_crc32 := 0x69D4EEB6\<rparr>,
             entries = [ex_entry_b, zero_entry, zero_entry],
             cluster_bitmap = 15 # replicate 256 0,
             initialized = True\<rparr>"

section \<open>The cluster bitmap\<close>

lemma bitmap_test_bit: "bitmap_test bm i = bit (bm ! (i div 8)) (i mod 8)"
  by (simp add: bitmap_test_def bit_iff_and_push_bit_not_eq_0)

lemma length_bitmap_set [simp]: "length (bitmap_set bm i) = length bm"
  by (simp add: bitmap_set_def)

lemma length_bitmap_clear [simp]: "length (bitmap_clear bm i) = length bm"
  by (simp add: bitmap_clear_def)

lemma div_mod_8_eq: "(i::nat) div 8 = j div 8 \<Longrightarrow> i mod 8 = j mod 8 \<Longrightarrow> i = j"
  by (metis div_mult_mod_eq)

lemma bitmap_test_set:
  assumes "i div 8 < length bm"
  shows "bitmap_test (bitmap_set bm i) j = (j = i \<or> bitmap_test bm j)"
proof (cases "j div 8 = i div 8")
  case True
  have "j mod 8 < 8" by simp
  then show ?thesis using True assms
    by (auto simp: bitmap_test_bit bitmap_set_def bit_or_iff bit_exp_iff possible_bit_word
        dest: div_mod_8_eq)
next
  case False
  then show ?thesis using assms
    by (auto simp: bitmap_test_bit bitmap_set_def)
qed

lemma bitmap_test_clear:
  assumes "i div 8 < length bm"
  shows "bitmap_test (bitmap_clear bm i) j = (j \<noteq> i \<and> bitmap_test bm j)"
proof (cases "j div 8 = i div 8")
  case True
  then show ?thesis using assms
    by (auto simp: bitmap_test_bit bitmap_clear_def bit_and_iff bit_not_iff bit_exp_iff
        possible_bit_word dest: div_mod_8_eq)
next
  case False
  then show ?thesis using assms
    by (auto simp: bitmap_test_bit bitmap_clear_def)
qed

text \<open>Two bitmaps of the same length with the same bits are the same array.\<close>

lemma bitmap_eqI:
  assumes len: "length bm = length bm'"
    and bits: "\<And>i. i < 8 * length bm \<Longrightarrow> bitmap_test bm i = bitmap_test bm' i"
  shows "bm = bm'"
proof (rule nth_equalityI[OF len])
  fix k assume k: "k < length bm"
  show "bm ! k = bm' ! k"
  proof (rule bit_eqI)
    fix n assume "possible_bit TYPE(byte) n"
    then have n: "n < 8" by (simp add: possible_bit_word)
    from k n have "8 * k + n < 8 * length bm" by simp
    from bits[OF this] n show "bit (bm ! k) n = bit (bm' ! k) n"
      by (simp add: bitmap_test_bit)
  qed
qed

lemma length_foldl_bitmap_set [simp]: "length (foldl bitmap_set bm ks) = length bm"
  by (induction ks arbitrary: bm) auto

lemma bitmap_test_foldl_set:
  assumes "\<forall>k\<in>set ks. k div 8 < length bm"
  shows "bitmap_test (foldl bitmap_set bm ks) j = (j \<in> set ks \<or> bitmap_test bm j)"
  using assms
proof (induction ks arbitrary: bm)
  case Nil
  then show ?case by simp
next
  case (Cons k ks)
  then show ?case by (auto simp: bitmap_test_set)
qed

lemma clear_clusters_Some:
  assumes "\<forall>c\<in>set cs. unat c div 8 < length bm"
  shows "\<exists>bm'. clear_clusters bm cs = Some bm' \<and> length bm' = length bm
           \<and> (\<forall>j. bitmap_test bm' j = (j \<notin> unat ` set cs \<and> bitmap_test bm j))"
  using assms
proof (induction cs arbitrary: bm)
  case Nil
  then show ?case by simp
next
  case (Cons c cs)
  from Cons.prems have c: "unat c div 8 < length bm" by simp
  from Cons.prems have "\<forall>x\<in>set cs. unat x div 8 < length (bitmap_clear bm (unat c))" by simp
  from Cons.IH[OF this] obtain bm' where
    "clear_clusters (bitmap_clear bm (unat c)) cs = Some bm'" "length bm' = length bm"
    "\<forall>j. bitmap_test bm' j = (j \<notin> unat ` set cs \<and> bitmap_test (bitmap_clear bm (unat c)) j)"
    by auto
  with c show ?case by (auto simp: bitmap_test_clear)
qed

lemma clear_clusters_dom:
  assumes "clear_clusters bm cs = Some bm'"
  shows "\<forall>c\<in>set cs. unat c div 8 < length bm"
  using assms
proof (induction cs arbitrary: bm)
  case Nil
  then show ?case by simp
next
  case (Cons c cs)
  from Cons.prems have c: "unat c div 8 < length bm"
    and r: "clear_clusters (bitmap_clear bm (unat c)) cs = Some bm'"
    by (auto split: if_splits)
  from Cons.IH[OF r] c show ?case by simp
qed

lemma unat_of_nat_u16: "i < 65536 \<Longrightarrow> unat (of_nat i :: u16) = i"
  by (simp add: unat_of_nat)

lemma map_unat_of_nat_u16:
  assumes "\<forall>k\<in>set ks. k < 65536"
  shows "map unat (map of_nat ks :: u16 list) = ks"
  using assms by (induction ks) (auto simp: unat_of_nat_u16)

text \<open>Clearing the bits that were set on free clusters gives the bitmap back.\<close>

lemma clear_after_set:
  assumes inb: "\<forall>k\<in>set ks. k div 8 < length bm"
    and small: "\<forall>k\<in>set ks. k < 65536"
    and free: "\<forall>k\<in>set ks. \<not> bitmap_test bm k"
  shows "clear_clusters (foldl bitmap_set bm ks) (map of_nat ks) = Some bm"
proof -
  have "map unat (map of_nat ks :: u16 list) = ks"
    by (rule map_unat_of_nat_u16[OF small])
  then have img: "unat ` set (map of_nat ks :: u16 list) = set ks"
    by (metis list.set_map)
  have "\<forall>c\<in>set (map of_nat ks :: u16 list). unat c div 8 < length (foldl bitmap_set bm ks)"
    using inb small by (auto simp: unat_of_nat_u16)
  from clear_clusters_Some[OF this] obtain bm' where
    r: "clear_clusters (foldl bitmap_set bm ks) (map of_nat ks) = Some bm'"
    and len: "length bm' = length bm"
    and bits: "\<forall>j. bitmap_test bm' j = (j \<notin> set ks \<and> bitmap_test (foldl bitmap_set bm ks) j)"
    unfolding img by auto
  have "bm' = bm"
  proof (rule bitmap_eqI[OF len])
    fix i
    show "bitmap_test bm' i = bitmap_test bm i"
      using bits free by (auto simp: bitmap_test_foldl_set[OF inb])
  qed
  with r show ?thesis by simp
qed

section \<open>The allocator\<close>

lemma filter_free_bitmap_set:
  assumes "i div 8 < length bm"
  shows "filter (\<lambda>j. \<not> bitmap_test (bitmap_set bm i) j) [Suc i..<n]
       = filter (\<lambda>j. \<not> bitmap_test bm j) [Suc i..<n]"
  by (rule filter_cong) (auto simp: bitmap_test_set[OF assms])

text \<open>The scan collects the first free clusters from \<open>i\<close> on, until \<open>count\<close> are found.\<close>

lemma alloc_scan_eq:
  assumes "n \<le> 8 * length bm"
  shows "alloc_scan bm i n count acc =
         Some (foldl bitmap_set bm (take (count - length acc) (filter (\<lambda>j. \<not> bitmap_test bm j) [i..<n])),
               acc @ map of_nat (take (count - length acc) (filter (\<lambda>j. \<not> bitmap_test bm j) [i..<n])))"
  using assms
proof (induction bm i n count acc rule: alloc_scan.induct)
  case (1 bm i n count acc)
  show ?case
  proof (cases "i < n \<and> length acc < count")
    case False
    then show ?thesis by (subst alloc_scan.simps) auto
  next
    case True
    with "1.prems" have inb: "i div 8 < length bm" by auto
    from True have upt: "[i..<n] = i # [Suc i..<n]" by (simp add: upt_conv_Cons)
    from True obtain d where d: "count - length acc = Suc d" "count - Suc (length acc) = d"
      by (metis Suc_diff_Suc diff_Suc_eq_diff_pred)
    show ?thesis
    proof (cases "bitmap_test bm i")
      case True
      with \<open>i < n \<and> length acc < count\<close> inb "1.IH"(2) "1.prems" show ?thesis
        by (subst alloc_scan.simps) (simp add: upt)
    next
      case False
      have "alloc_scan (bitmap_set bm i) (i + 1) n count (acc @ [of_nat i]) =
            Some (foldl bitmap_set (bitmap_set bm i) (take d (filter (\<lambda>j. \<not> bitmap_test bm j) [Suc i..<n])),
               (acc @ [of_nat i]) @ map of_nat (take d (filter (\<lambda>j. \<not> bitmap_test bm j) [Suc i..<n])))"
        using "1.IH"(1)[OF True inb False] "1.prems" d
        by (simp add: filter_free_bitmap_set[OF inb])
      with \<open>i < n \<and> length acc < count\<close> inb False d show ?thesis
        by (subst alloc_scan.simps) (simp add: upt)
    qed
  qed
qed

lemma free_cluster_indices_props:
  "\<forall>k\<in>set (take m (free_cluster_indices acfs)).
      k < unat (total_clusters (header acfs)) \<and> unat (sys_clusters (header acfs)) \<le> k
      \<and> \<not> bitmap_test (cluster_bitmap acfs) k"
  by (auto simp: free_cluster_indices_def dest!: in_set_takeD)

lemma sorted_free_cluster_indices: "sorted_wrt (<) (take m (free_cluster_indices acfs))"
  unfolding free_cluster_indices_def
  by (intro sorted_wrt_take sorted_wrt_filter) (simp add: sorted_wrt_upt)

lemma total_clusters_small: "unat (total_clusters (header acfs)) < 65536"
  using unsigned_less[of "total_clusters (header acfs)", where ?'a = nat] by simp

text \<open>The three outcomes of \<open>acfs_allocate_clusters\<close>, when the bitmap covers all clusters.\<close>

lemma acfs_allocate_clusters_result:
  assumes "unat (total_clusters (header acfs)) \<le> 8 * length (cluster_bitmap acfs)"
  shows "acfs_allocate_clusters acfs count =
     (if free_clusters (header acfs) < count then Some (ACFS_ERROR_NO_SPACE, acfs, [])
      else if length (free_cluster_indices acfs) < unat count
      then Some (ACFS_ERROR_NO_SPACE, acfs, map of_nat (free_cluster_indices acfs))
      else Some (ACFS_OK,
             acfs\<lparr>cluster_bitmap :=
                     foldl bitmap_set (cluster_bitmap acfs) (take (unat count) (free_cluster_indices acfs)),
                  header := (header acfs)\<lparr>free_clusters := free_clusters (header acfs) - count\<rparr>\<rparr>,
             map of_nat (take (unat count) (free_cluster_indices acfs))))"
proof -
  let ?bm = "cluster_bitmap acfs"
  let ?N = "unat (total_clusters (header acfs))"
  define ks where "ks = take (unat count) (free_cluster_indices acfs)"
  define cl :: "u16 list" where "cl = map of_nat ks"
  have props: "\<forall>k\<in>set ks. k < ?N \<and> \<not> bitmap_test ?bm k"
    unfolding ks_def using free_cluster_indices_props[of "unat count" acfs] by auto
  then have inb: "\<forall>k\<in>set ks. k div 8 < length ?bm" using assms by auto
  from props total_clusters_small[of acfs] have small: "\<forall>k\<in>set ks. k < 65536" by auto
  from props have free: "\<forall>k\<in>set ks. \<not> bitmap_test ?bm k" by auto
  have lencl: "length cl = length ks" by (simp add: cl_def)
  have scan: "alloc_scan ?bm (unat (sys_clusters (header acfs))) ?N (unat count) []
        = Some (foldl bitmap_set ?bm ks, cl)"
    using alloc_scan_eq[OF assms, of "unat (sys_clusters (header acfs))" "unat count" "[]"]
    by (simp add: free_cluster_indices_def ks_def cl_def)
  show ?thesis
  proof (cases "free_clusters (header acfs) < count")
    case True
    then show ?thesis by (simp add: acfs_allocate_clusters_def)
  next
    case nofail: False
    show ?thesis
    proof (cases "length (free_cluster_indices acfs) < unat count")
      case True
      then have all: "ks = free_cluster_indices acfs" by (simp add: ks_def)
      from True have short: "length cl < unat count" by (simp add: lencl all)
      have "clear_clusters (foldl bitmap_set ?bm ks) cl = Some ?bm"
        unfolding cl_def by (rule clear_after_set[OF inb small free])
      with nofail scan short True show ?thesis
        by (simp add: acfs_allocate_clusters_def cl_def all)
    next
      case False
      then have "\<not> length cl < unat count" by (simp add: lencl ks_def)
      with nofail scan False show ?thesis
        by (simp add: acfs_allocate_clusters_def cl_def ks_def)
    qed
  qed
qed

text \<open>
  Claim C8: for every request of \<open>count\<close> clusters on a filesystem whose bitmap covers
  its \<open>total_clusters\<close> clusters (as \<open>acfs_init\<close> allocates it), the allocator returns, and
  it succeeds exactly when \<open>count\<close> is at most \<open>free_clusters\<close> and at most the number of
  clear bits in \<open>[sys_clusters, total_clusters)\<close>. When it succeeds it returns exactly the
  \<open>count\<close> lowest-indexed free clusters of that range, in strictly ascending order, each of
  them free before the call; the bitmap afterwards has exactly these bits set in addition,
  and \<open>free_clusters\<close> has gone down by \<open>count\<close>. Otherwise it fails with
  \<open>ACFS_ERROR_NO_SPACE\<close> and leaves the state, and so the bitmap, as it was (the bits set
  during the scan have been cleared again).
\<close>

theorem allocate_first_fit:
  assumes "unat (total_clusters (header acfs)) \<le> 8 * length (cluster_bitmap acfs)"
  shows "\<exists>ret acfs' cl. acfs_allocate_clusters acfs count = Some (ret, acfs', cl) \<and>
     (if count \<le> free_clusters (header acfs) \<and> unat count \<le> length (free_cluster_indices acfs)
      then ret = ACFS_OK
        \<and> length cl = unat count
        \<and> map unat cl = take (unat count) (free_cluster_indices acfs)
        \<and> sorted_wrt (<) (map unat cl)
        \<and> (\<forall>c\<in>set cl. unat (sys_clusters (header acfs)) \<le> unat c
               \<and> \<not> bitmap_test (cluster_bitmap acfs) (unat c))
        \<and> length (cluster_bitmap acfs') = length (cluster_bitmap acfs)
        \<and> (\<forall>i. bitmap_test (cluster_bitmap acfs') i
               = (i \<in> unat ` set cl \<or> bitmap_test (cluster_bitmap acfs) i))
        \<and> free_clusters (header acfs') = free_clusters (header acfs) - count
      else ret = ACFS_ERROR_NO_SPACE \<and> acfs' = acfs)"
proof -
  let ?bm = "cluster_bitmap acfs"
  define ks where "ks = take (unat count) (free_cluster_indices acfs)"
  define cl :: "u16 list" where "cl = map of_nat ks"
  have props: "\<forall>k\<in>set ks. k < unat (total_clusters (header acfs))
                 \<and> unat (sys_clusters (header acfs)) \<le> k \<and> \<not> bitmap_test ?bm k"
    unfolding ks_def using free_cluster_indices_props[of "unat count" acfs] by auto
  then have inb: "\<forall>k\<in>set ks. k div 8 < length ?bm" using assms by auto
  from props total_clusters_small[of acfs] have small: "\<forall>k\<in>set ks. k < 65536" by auto
  have un: "map unat cl = ks"
    unfolding cl_def by (rule map_unat_of_nat_u16[OF small])
  then have img: "unat ` set cl = set ks" by (metis list.set_map)
  note res = acfs_allocate_clusters_result[OF assms, of count]
  show ?thesis
  proof (cases "count \<le> free_clusters (header acfs) \<and> unat count \<le> length (free_cluster_indices acfs)")
    case False
    then have "free_clusters (header acfs) < count \<or> length (free_cluster_indices acfs) < unat count"
      by auto
    with res False show ?thesis by auto
  next
    case True
    then have nf: "\<not> free_clusters (header acfs) < count"
      "\<not> length (free_cluster_indices acfs) < unat count" by auto
    from True have a: "length cl = unat count" by (simp add: cl_def ks_def)
    have b: "map unat cl = take (unat count) (free_cluster_indices acfs)"
      using un by (simp add: ks_def)
    have c: "sorted_wrt (<) (map unat cl)"
      unfolding un ks_def by (rule sorted_free_cluster_indices)
    have d: "\<forall>c\<in>set cl. unat (sys_clusters (header acfs)) \<le> unat c \<and> \<not> bitmap_test ?bm (unat c)"
      using props img by (metis imageI)
    have e: "\<forall>i. bitmap_test (foldl bitmap_set ?bm ks) i
             = (i \<in> unat ` set cl \<or> bitmap_test ?bm i)"
      unfolding img by (simp add: bitmap_test_foldl_set[OF inb])
    have len: "length (foldl bitmap_set ?bm ks) = length ?bm"
      by (induction ks rule: rev_induct) (simp_all add: bitmap_set_def)
    have "acfs_allocate_clusters acfs count =
          Some (ACFS_OK, acfs\<lparr>cluster_bitmap := foldl bitmap_set ?bm ks,
                       header := (header acfs)\<lparr>free_clusters := free_clusters (header acfs) - count\<rparr>\<rparr>, cl)"
      using res nf by (simp add: cl_def ks_def)
    with True a b c d e len show ?thesis by simp
  qed
qed
section \<open>The allocator on concrete bitmaps\<close>

lemma ex_free_indices:
  "free_cluster_indices ex_fs_frag = [2, 4, 5, 6, 7, 8, 9, 10, 11, 12, 13, 14, 15, 16, 17, 18, 19,
      20, 21, 22, 23, 24, 25, 26, 27, 28, 29, 30, 31]"
  "free_cluster_indices ex_fs_short = [2, 28]"
  "free_cluster_indices ex_fs = [2]"
  by (simp_all add: free_cluster_indices_def ex_fs_frag_def ex_fs_short_def ex_fs_2k_def ex_fs_def
      ex_header_def bitmap_test_def upt_rec)

lemma ex_cover:
  "unat (total_clusters (header ex_fs_frag)) \<le> 8 * length (cluster_bitmap ex_fs_frag)"
  "unat (total_clusters (header ex_fs_short)) \<le> 8 * length (cluster_bitmap ex_fs_short)"
  "unat (total_clusters (header ex_fs)) \<le> 8 * length (cluster_bitmap ex_fs)"
  by (simp_all add: ex_fs_frag_def ex_fs_short_def ex_fs_2k_def ex_fs_def ex_header_def)

lemma ex_allocate:
  "acfs_allocate_clusters ex_fs_frag 3
     = Some (ACFS_OK, ex_fs_frag\<lparr>cluster_bitmap := [0x3F, 0, 0, 0],
                         header := (header ex_fs_frag)\<lparr>free_clusters := 26\<rparr>\<rparr>, [2, 4, 5])"
  "acfs_allocate_clusters ex_fs_short 3 = Some (ACFS_ERROR_NO_SPACE, ex_fs_short, [2, 28])"
  "acfs_allocate_clusters ex_fs 2 = Some (ACFS_ERROR_NO_SPACE, ex_fs, [])"
    apply (simp add: acfs_allocate_clusters_result[OF ex_cover(1)] ex_free_indices(1))
    apply (simp add: ex_fs_frag_def ex_fs_2k_def ex_header_def bitmap_set_def)
   apply (simp add: acfs_allocate_clusters_result[OF ex_cover(2)] ex_free_indices(2))
   apply (simp add: ex_fs_short_def ex_fs_2k_def ex_header_def)
  apply (simp add: acfs_allocate_clusters_result[OF ex_cover(3)] ex_free_indices(3))
  apply (simp add: ex_fs_def ex_header_def)
  done

theorem allocate_first_fit_witness:
  "unat (total_clusters (header ex_fs_frag)) \<le> 8 * length (cluster_bitmap ex_fs_frag)
   \<and> (3::u16) \<le> free_clusters (header ex_fs_frag)
   \<and> unat (3::u16) \<le> length (free_cluster_indices ex_fs_frag)
   \<and> acfs_allocate_clusters ex_fs_frag 3
       = Some (ACFS_OK, ex_fs_frag\<lparr>cluster_bitmap := [0x3F, 0, 0, 0],
                           header := (header ex_fs_frag)\<lparr>free_clusters := 26\<rparr>\<rparr>, [2, 4, 5])
   \<and> unat (total_clusters (header ex_fs_short)) \<le> 8 * length (cluster_bitmap ex_fs_short)
   \<and> (3::u16) \<le> free_clusters (header ex_fs_short)
   \<and> \<not> unat (3::u16) \<le> length (free_cluster_indices ex_fs_short)
   \<and> acfs_allocate_clusters ex_fs_short 3 = Some (ACFS_ERROR_NO_SPACE, ex_fs_short, [2, 28])
   \<and> unat (total_clusters (header ex_fs)) \<le> 8 * length (cluster_bitmap ex_fs)
   \<and> \<not> (2::u16) \<le> free_clusters (header ex_fs)
   \<and> acfs_allocate_clusters ex_fs 2 = Some (ACFS_ERROR_NO_SPACE, ex_fs, [])"
proof -
  have c: "(3::u16) \<le> free_clusters (header ex_fs_frag)"
    "(3::u16) \<le> free_clusters (header ex_fs_short)"
    "\<not> (2::u16) \<le> free_clusters (header ex_fs)"
    by (simp_all add: ex_fs_frag_def ex_fs_short_def ex_fs_2k_def ex_fs_def ex_header_def
        word_le_nat_alt)
  have n: "unat (3::u16) \<le> length (free_cluster_indices ex_fs_frag)"
    "\<not> unat (3::u16) \<le> length (free_cluster_indices ex_fs_short)"
    by (simp_all add: ex_free_indices)
  from allocate_first_fit[OF ex_cover(1), of 3] allocate_first_fit[OF ex_cover(2), of 3]
    allocate_first_fit[OF ex_cover(3), of 2] ex_cover ex_allocate c n
  show ?thesis by simp
qed

section \<open>Freeing clusters\<close>

text \<open>
  Claim C6, amended: for every list of \<open>count\<close> cluster indices inside the bitmap,
  \<open>acfs_free_clusters\<close> clears each listed bit, leaves every other bit as it was, and
  adds \<open>count\<close> to \<open>free_clusters\<close> (in \<open>uint16_t\<close> arithmetic); it does not subtract.
\<close>

theorem free_clusters_increments:
  assumes len: "length cl = unat count"
    and inb: "\<forall>c\<in>set cl. unat c < 8 * length (cluster_bitmap acfs)"
  shows "\<exists>acfs'. acfs_free_clusters acfs (ARRAY cl) count = Some acfs'
          \<and> (\<forall>c\<in>set cl. \<not> bitmap_test (cluster_bitmap acfs') (unat c))
          \<and> (\<forall>i. i \<notin> unat ` set cl
                \<longrightarrow> bitmap_test (cluster_bitmap acfs') i = bitmap_test (cluster_bitmap acfs) i)
          \<and> free_clusters (header acfs') = free_clusters (header acfs) + count
          \<and> unat (free_clusters (header acfs'))
              = (unat (free_clusters (header acfs)) + length cl) mod 65536"
proof -
  have ra: "read_array (ARRAY cl) (unat count) = Some cl"
    using len by (auto simp: read_array_def)
  from inb have "\<forall>c\<in>set cl. unat c div 8 < length (cluster_bitmap acfs)" by auto
  from clear_clusters_Some[OF this] obtain bm' where
    cc: "clear_clusters (cluster_bitmap acfs) cl = Some bm'"
    and bits: "\<forall>j. bitmap_test bm' j = (j \<notin> unat ` set cl \<and> bitmap_test (cluster_bitmap acfs) j)"
    by auto
  have "unat (free_clusters (header acfs) + count)
          = (unat (free_clusters (header acfs)) + length cl) mod 65536"
    by (simp add: unat_word_ariths len)
  with ra cc bits show ?thesis
    by (simp add: acfs_free_clusters_def)
qed

section \<open>Reading\<close>

lemma ops_read_Some:
  assumes "ops_read dev addr n = Some bs"
  shows "bs = take n (drop addr (medium dev)) \<and> length bs = n"
  using assms by (auto simp: ops_read_def eeprom_read_def split: if_splits)

lemma read_clusters_from_ok:
  assumes "read_clusters_from dev S cl i count acc = Some (ACFS_OK, out)"
  shows "out = acc @ concat (map (cluster_bytes dev S) (drop i (take count cl)))
         \<and> length out = length acc + (count - i) * S \<and> (i < count \<longrightarrow> count \<le> length cl)"
  using assms
proof (induction dev S cl i count acc rule: read_clusters_from.induct)
  case (1 dev S cl i count acc)
  show ?case
  proof (cases "i < count")
    case False
    with "1.prems" show ?thesis by (subst (asm) read_clusters_from.simps) simp
  next
    case True
    from True "1.prems" have il: "i < length cl"
      by (subst (asm) read_clusters_from.simps) (simp split: if_splits)
    from True il "1.prems" obtain bs where
      rd: "ops_read dev (cluster_addr dev S (cl ! i)) S = Some bs"
      and rest: "read_clusters_from dev S cl (i + 1) count (acc @ bs) = Some (ACFS_OK, out)"
      by (subst (asm) read_clusters_from.simps) (simp split: option.splits)
    from ops_read_Some[OF rd] have bs: "bs = cluster_bytes dev S (cl ! i)" "length bs = S"
      unfolding cluster_bytes_def by blast+
    from "1.IH"[OF True il rd rest] have
      ih: "out = (acc @ bs) @ concat (map (cluster_bytes dev S) (drop (i + 1) (take count cl)))"
        "length out = length (acc @ bs) + (count - (i + 1)) * S"
        "i + 1 < count \<longrightarrow> count \<le> length cl"
      by auto
    from True il have "drop i (take count cl) = cl ! i # drop (i + 1) (take count cl)"
      using Cons_nth_drop_Suc[of i "take count cl", symmetric] by simp
    moreover from True have "(count - i) * S = S + (count - (i + 1)) * S"
      by (metis Suc_diff_Suc Suc_eq_plus1 mult_Suc)
    moreover from True il ih(3) have "count \<le> length cl" by (cases "i + 1 < count") auto
    ultimately show ?thesis using ih bs by simp
  qed
qed

lemma acfs_read_clusters_ok:
  assumes "acfs_read_clusters acfs cl count = Some (ACFS_OK, out)"
  shows "\<exists>cs. read_array cl (unat count) = Some cs \<and> out = stored_clusters acfs cs
           \<and> length out = unat count * unat (cluster_size (header acfs))"
proof (cases "count = 0")
  case True
  with assms show ?thesis
    by (simp add: acfs_read_clusters_def read_array_def stored_clusters_def split: option.splits u16_ptr.splits)
next
  case False
  then have pos: "0 < unat count" by (simp add: unat_gt_0)
  from False assms obtain dev xs where st: "storage acfs = Some dev" and cl: "cl = ARRAY xs"
    and r: "read_clusters_from dev (unat (cluster_size (header acfs))) xs 0 (unat count) [] = Some (ACFS_OK, out)"
    by (auto simp: acfs_read_clusters_def split: option.splits u16_ptr.splits)
  from read_clusters_from_ok[OF r] pos have
    "out = concat (map (cluster_bytes dev (unat (cluster_size (header acfs)))) (take (unat count) xs))"
    "length out = unat count * unat (cluster_size (header acfs))" "unat count \<le> length xs"
    by auto
  with st cl pos show ?thesis
    by (simp add: read_array_def stored_clusters_def)
qed




text \<open>
  Claim C4: a read that returns \<open>ACFS_OK\<close> has found a live entry whose \<open>data_size\<close> is
  at most the stated buffer size, and has stored in the caller's buffer the clusters of
  the entry's list, each in full: \<open>cluster_count * cluster_size\<close> bytes. So its stores stay
  within \<open>sz\<close> bytes exactly when \<open>cluster_count * cluster_size \<le> sz\<close>.
\<close>

theorem read_stores_whole_clusters:
  assumes "acfs_read acfs (Some did) (Some buf) sz want_size = Some r"
    and "read_ret r = ACFS_OK"
  shows "\<exists>idx cs. acfs_find_entry acfs did = Some (Some idx)
           \<and> unat (data_size (entries acfs ! idx)) \<le> sz
           \<and> read_array (cluster_list (entries acfs ! idx)) (unat (cluster_count (entries acfs ! idx))) = Some cs
           \<and> read_stored r = stored_clusters acfs cs
           \<and> length (read_stored r)
               = unat (cluster_count (entries acfs ! idx)) * unat (cluster_size (header acfs))
           \<and> (stores_within r sz
               \<longleftrightarrow> unat (cluster_count (entries acfs ! idx)) * unat (cluster_size (header acfs)) \<le> sz)"
proof -
  from assms obtain idx bs where
    f: "acfs_find_entry acfs did = Some (Some idx)"
    and sz: "\<not> sz < unat (data_size (entries acfs ! idx))"
    and rc: "acfs_read_clusters acfs (cluster_list (entries acfs ! idx))
               (cluster_count (entries acfs ! idx)) = Some (ACFS_OK, bs)"
    and st: "read_stored r = bs"
    by (auto simp: acfs_read_def split: option.splits if_splits)
  from acfs_read_clusters_ok[OF rc] f sz st show ?thesis by (auto simp: stores_within_def)
qed

section \<open>Validation in \<open>acfs_write\<close>\<close>

lemma write_clusters_from_ret:
  assumes "write_clusters_from dev S cl data i count = Some (r, dev')"
  shows "r = ACFS_OK \<or> r = ACFS_ERROR_IO_ERROR"
  using assms
proof (induction dev S cl data i count rule: write_clusters_from.induct)
  case (1 dev S cl data i count)
  from "1.prems" show ?case
    by (subst (asm) write_clusters_from.simps) (auto split: if_splits option.splits dest: "1.IH")
qed

lemma acfs_write_clusters_ret:
  assumes "acfs_write_clusters acfs cl count data = Some (r, acfs')"
  shows "r = ACFS_OK \<or> r = ACFS_ERROR_IO_ERROR"
  using assms
  by (auto simp: acfs_write_clusters_def split: if_splits option.splits u16_ptr.splits
      dest: write_clusters_from_ret)

lemma acfs_save_header_ret:
  assumes "acfs_save_header acfs = Some (r, acfs')"
  shows "r = ACFS_OK \<or> r = ACFS_ERROR_IO_ERROR"
  using assms by (auto simp: acfs_save_header_def split: option.splits)

lemma save_cluster_lists_ret:
  assumes "save_cluster_lists dev es esize i n = Some (r, dev')"
  shows "r = ACFS_OK \<or> r = ACFS_ERROR_IO_ERROR"
  using assms
proof (induction dev es esize i n rule: save_cluster_lists.induct)
  case (1 dev es esize i n)
  from "1.prems" show ?case
    by (subst (asm) save_cluster_lists.simps) (auto split: if_splits option.splits dest: "1.IH")
qed

lemma acfs_save_entries_ret:
  assumes "acfs_save_entries acfs = Some (r, acfs')"
  shows "r = ACFS_OK \<or> r = ACFS_ERROR_IO_ERROR"
  using assms
  by (auto simp: acfs_save_entries_def split: if_splits option.splits dest: save_cluster_lists_ret)

lemma acfs_write_data_ret:
  assumes "acfs_write_data acfs idx data sz = Some (r, acfs')"
  shows "r = ACFS_OK \<or> r = ACFS_ERROR_IO_ERROR"
proof -
  from assms consider
      (clusters) a cl count where "acfs_write_clusters a cl count data = Some (r, acfs')"
    | (header) b where "acfs_save_header b = Some (r, acfs')"
    | (entries) c where "acfs_save_entries c = Some (r, acfs')"
    unfolding acfs_write_data_def
    by (fastforce split: if_splits option.splits prod.splits)
  then show ?thesis
  proof cases
    case clusters
    then show ?thesis by (rule acfs_write_clusters_ret)
  next
    case header
    then show ?thesis by (rule acfs_save_header_ret)
  next
    case entries
    then show ?thesis by (rule acfs_save_entries_ret)
  qed
qed

lemma acfs_allocate_clusters_ret:
  assumes "acfs_allocate_clusters acfs count = Some (r, acfs', cl)"
  shows "r = ACFS_OK \<or> r = ACFS_ERROR_NO_SPACE"
  using assms by (auto simp: acfs_allocate_clusters_def split: if_splits option.splits)

lemma acfs_write_update_ret:
  assumes "acfs_write_update acfs idx k data sz = Some (r, acfs')"
  shows "r \<noteq> ACFS_ERROR_INVALID_PARAM"
proof -
  from assms consider
      (alloc) a cl acfs2 where "acfs_allocate_clusters a k = Some (r, acfs2, cl)"
    | (data) b where "acfs_write_data b idx data sz = Some (r, acfs')"
    unfolding acfs_write_update_def
    by (fastforce split: if_splits option.splits prod.splits)
  then show ?thesis
  proof cases
    case alloc
    from acfs_allocate_clusters_ret[OF this] show ?thesis by auto
  next
    case data
    from acfs_write_data_ret[OF this] show ?thesis by auto
  qed
qed

lemma acfs_write_create_ret:
  assumes "acfs_write_create acfs did k data sz = Some (r, acfs')"
  shows "r \<noteq> ACFS_ERROR_INVALID_PARAM"
proof -
  from assms consider
      (full) "r = ACFS_ERROR_CLUSTER_FULL"
    | (alloc) a cl acfs2 where "acfs_allocate_clusters a k = Some (r, acfs2, cl)"
    | (data) b i where "acfs_write_data b i data sz = Some (r, acfs')"
    unfolding acfs_write_create_def
    by (fastforce split: if_splits option.splits prod.splits)
  then show ?thesis
  proof cases
    case full
    then show ?thesis by simp
  next
    case alloc
    from acfs_allocate_clusters_ret[OF this] show ?thesis by auto
  next
    case data
    from acfs_write_data_ret[OF this] show ?thesis by auto
  qed
qed

text \<open>
  Claim C9, amended: \<open>acfs_write\<close> returns \<open>ACFS_ERROR_INVALID_PARAM\<close> when the id pointer
  is null, the data pointer is null or \<open>n = 0\<close>; otherwise an unmounted filesystem gives
  \<open>ACFS_ERROR_NOT_INITIALIZED\<close> whatever the id; on a mounted one an id of length 32 or
  more gives \<open>ACFS_ERROR_INVALID_PARAM\<close>, and an id of length below 32 (so of length 31,
  and also the empty id) is never answered with \<open>ACFS_ERROR_INVALID_PARAM\<close>.
\<close>

theorem write_validation:
  "(data_id_p = None \<or> data_p = None \<or> n = 0
      \<longrightarrow> acfs_write acfs data_id_p data_p n = Some (ACFS_ERROR_INVALID_PARAM, acfs))
   \<and> (data_p \<noteq> None \<and> n \<noteq> 0 \<and> \<not> initialized acfs
      \<longrightarrow> acfs_write acfs (Some did) data_p n = Some (ACFS_ERROR_NOT_INITIALIZED, acfs))
   \<and> (data_p \<noteq> None \<and> n \<noteq> 0 \<and> initialized acfs \<and> strlen did \<ge> 32
      \<longrightarrow> acfs_write acfs (Some did) data_p n = Some (ACFS_ERROR_INVALID_PARAM, acfs))
   \<and> (data_p \<noteq> None \<and> n \<noteq> 0 \<and> initialized acfs \<and> strlen did < 32
      \<longrightarrow> (\<forall>acfs'. acfs_write acfs (Some did) data_p n \<noteq> Some (ACFS_ERROR_INVALID_PARAM, acfs')))"
proof (intro conjI impI allI)
  assume "data_id_p = None \<or> data_p = None \<or> n = 0"
  then show "acfs_write acfs data_id_p data_p n = Some (ACFS_ERROR_INVALID_PARAM, acfs)"
    by (auto simp: acfs_write_def split: option.splits)
next
  assume "data_p \<noteq> None \<and> n \<noteq> 0 \<and> \<not> initialized acfs"
  then show "acfs_write acfs (Some did) data_p n = Some (ACFS_ERROR_NOT_INITIALIZED, acfs)"
    by (auto simp: acfs_write_def split: option.splits)
next
  assume "data_p \<noteq> None \<and> n \<noteq> 0 \<and> initialized acfs \<and> strlen did \<ge> 32"
  then show "acfs_write acfs (Some did) data_p n = Some (ACFS_ERROR_INVALID_PARAM, acfs)"
    by (auto simp: acfs_write_def ACFS_MAX_DATA_ID_LEN_def split: option.splits)
next
  fix acfs'
  assume a: "data_p \<noteq> None \<and> n \<noteq> 0 \<and> initialized acfs \<and> strlen did < 32"
  show "acfs_write acfs (Some did) data_p n \<noteq> Some (ACFS_ERROR_INVALID_PARAM, acfs')"
  proof
    assume "acfs_write acfs (Some did) data_p n = Some (ACFS_ERROR_INVALID_PARAM, acfs')"
    with a show False
      by (auto simp: acfs_write_def ACFS_MAX_DATA_ID_LEN_def split: option.splits if_splits
          dest: acfs_write_update_ret acfs_write_create_ret)
  qed
qed

section \<open>What acfs_init establishes\<close>

lemma length_chunks [simp]: "length (chunks n w xs) = n"
  by (induction n arbitrary: xs) auto

lemma load_cluster_lists_length:
  assumes "load_cluster_lists dev es esize i n = Some (r, es')"
  shows "length es' = length es"
  using assms
proof (induction dev es esize i n rule: load_cluster_lists.induct)
  case (1 dev es esize i n)
  from "1.prems" show ?case
    by (subst (asm) load_cluster_lists.simps)
       (auto split: if_splits option.splits dest: "1.IH")
qed

lemma mark_clusters_length:
  "mark_clusters bm cs = Some bm' \<Longrightarrow> length bm' = length bm"
  by (induction cs arbitrary: bm) (auto split: if_splits)

lemma mark_entries_length:
  "mark_entries bm es = Some bm' \<Longrightarrow> length bm' = length bm"
proof (induction es arbitrary: bm)
  case Nil
  then show ?case by simp
next
  case (Cons e es)
  then show ?case
    by (auto split: if_splits option.splits dest: mark_clusters_length)
qed

lemma acfs_load_entries_frame:
  assumes "acfs_load_entries acfs = Some (r, acfs')"
  shows "header acfs' = header acfs \<and> storage acfs' = storage acfs
       \<and> cluster_bitmap acfs' = cluster_bitmap acfs \<and> initialized acfs' = initialized acfs
       \<and> length (entries acfs') = length (entries acfs)"
  using assms
  by (auto simp: acfs_load_entries_def split: if_splits option.splits
      dest!: load_cluster_lists_length)

lemma acfs_init_bitmap_frame:
  assumes "acfs_init_bitmap acfs = Some (r, acfs')"
  shows "header acfs' = header acfs \<and> storage acfs' = storage acfs
       \<and> entries acfs' = entries acfs \<and> initialized acfs' = initialized acfs
       \<and> length (cluster_bitmap acfs') = length (cluster_bitmap acfs)"
  using assms
  by (auto simp: acfs_init_bitmap_def split: if_splits option.splits
      dest!: mark_clusters_length mark_entries_length)

lemma init_mount_mounted:
  assumes "init_mount acfs = Some (ACFS_OK, acfs')" and "storage acfs \<noteq> None"
  shows "acfs_mounted acfs'"
proof -
  from assms obtain a1 where l: "acfs_load_entries (init_alloc acfs) = Some (ACFS_OK, a1)"
    by (auto simp: init_mount_def split: option.splits if_splits)
  with assms obtain a2 where b: "acfs_init_bitmap a1 = Some (ACFS_OK, a2)"
    and r: "acfs' = a2\<lparr>initialized := True\<rparr>"
    by (auto simp: init_mount_def split: option.splits if_splits)
  from acfs_load_entries_frame[OF l] acfs_init_bitmap_frame[OF b] r assms(2)
  show ?thesis
    by (simp add: acfs_mounted_def init_alloc_def bitmap_size_def)
qed

lemma acfs_save_header_storage:
  assumes "acfs_save_header acfs = Some (ACFS_OK, acfs')"
  shows "storage acfs' \<noteq> None"
  using assms by (auto simp: acfs_save_header_def split: option.splits)

lemma acfs_format_storage:
  assumes "acfs_format acfs cfg = Some (ACFS_OK, acfs')"
  shows "storage acfs' \<noteq> None"
  using assms
  by (auto simp: acfs_format_def split: option.splits if_splits prod.splits)

lemma init_format_mounted:
  assumes "init_format acfs cfg = Some (ACFS_OK, acfs')"
  shows "acfs_mounted acfs'"
proof -
  from assms obtain a1 where f: "acfs_format acfs cfg = Some (ACFS_OK, a1)"
    and m: "init_mount a1 = Some (ACFS_OK, acfs')"
    by (auto simp: init_format_def split: option.splits if_splits)
  from init_mount_mounted[OF m acfs_format_storage[OF f]] show ?thesis .
qed

lemma acfs_load_header_storage:
  assumes "acfs_load_header acfs = Some (r, acfs')"
  shows "storage acfs' = storage acfs"
  using assms by (auto simp: acfs_load_header_def split: option.splits if_splits)

text \<open>A successful \<open>acfs_init\<close> gives a mounted filesystem in the sense of \<open>acfs_mounted\<close>.\<close>

lemma acfs_init_mounted:
  assumes "acfs_init acfs dev cfg = Some (ACFS_OK, acfs')"
  shows "acfs_mounted acfs'"
proof -
  from assms obtain r1 a1 where h: "acfs_load_header (zero_acfs\<lparr>storage := Some dev\<rparr>) = Some (r1, a1)"
    and c: "init_format a1 cfg = Some (ACFS_OK, acfs') \<or> init_mount a1 = Some (ACFS_OK, acfs')"
    by (auto simp: acfs_init_def split: option.splits if_splits)
  from acfs_load_header_storage[OF h] have st: "storage a1 \<noteq> None" by simp
  from c show ?thesis
  proof
    assume "init_format a1 cfg = Some (ACFS_OK, acfs')"
    then show ?thesis by (rule init_format_mounted)
  next
    assume "init_mount a1 = Some (ACFS_OK, acfs')"
    then show ?thesis by (rule init_mount_mounted[OF _ st])
  qed
qed

section \<open>What the persisting functions leave unchanged\<close>

lemma acfs_write_clusters_frame:
  assumes "acfs_write_clusters acfs cl count data = Some (r, acfs')"
  shows "header acfs' = header acfs \<and> entries acfs' = entries acfs
         \<and> cluster_bitmap acfs' = cluster_bitmap acfs \<and> initialized acfs' = initialized acfs"
  using assms
  by (auto simp: acfs_write_clusters_def split: if_splits option.splits u16_ptr.splits)

lemma acfs_save_header_frame:
  assumes "acfs_save_header acfs = Some (r, acfs')"
  shows "header acfs' = header_with_crc (header acfs) \<and> entries acfs' = entries acfs
         \<and> cluster_bitmap acfs' = cluster_bitmap acfs \<and> initialized acfs' = initialized acfs"
  using assms
  by (auto simp: acfs_save_header_def split: option.splits)

lemma acfs_save_entries_frame:
  assumes "acfs_save_entries acfs = Some (r, acfs')"
  shows "header acfs' = header acfs \<and> entries acfs' = entries acfs
         \<and> cluster_bitmap acfs' = cluster_bitmap acfs \<and> initialized acfs' = initialized acfs"
  using assms
  by (auto simp: acfs_save_entries_def split: if_splits option.splits)

lemma header_with_crc_fields [simp]:
  "free_clusters (header_with_crc h) = free_clusters h"
  "data_entries (header_with_crc h) = data_entries h"
  "sys_clusters (header_with_crc h) = sys_clusters h"
  "total_clusters (header_with_crc h) = total_clusters h"
  "cluster_size (header_with_crc h) = cluster_size h"
  by (simp_all add: header_with_crc_def)

lemma acfs_write_data_frame:
  assumes "acfs_write_data acfs idx data sz = Some (r, acfs')"
  shows "free_clusters (header acfs') = free_clusters (header acfs)
         \<and> data_entries (header acfs') = data_entries (header acfs)
         \<and> cluster_bitmap acfs' = cluster_bitmap acfs
         \<and> initialized acfs' = initialized acfs
         \<and> entries acfs' = (entries acfs)
              [idx := (entries acfs ! idx)\<lparr>data_size := of_nat sz,
                                           data_crc32 := acfs_crc32 (mem_range data 0 sz)\<rparr>]"
proof -
  let ?a0 = "acfs\<lparr>entries := (entries acfs)
                [idx := (entries acfs ! idx)\<lparr>data_size := of_nat sz,
                                             data_crc32 := acfs_crc32 (mem_range data 0 sz)\<rparr>]\<rparr>"
  from assms obtain r1 a1 where
    w: "acfs_write_clusters ?a0 (cluster_list (entries acfs ! idx)) (cluster_count (entries acfs ! idx)) data
          = Some (r1, a1)"
    by (auto simp: acfs_write_data_def split: option.splits)
  note f1 = acfs_write_clusters_frame[OF w]
  show ?thesis
  proof (cases "r1 = ACFS_OK")
    case False
    with assms w have "acfs' = a1" by (simp add: acfs_write_data_def)
    with f1 show ?thesis by simp
  next
    case True
    with assms w obtain r2 a2 where h: "acfs_save_header a1 = Some (r2, a2)"
      by (auto simp: acfs_write_data_def split: option.splits)
    note f2 = acfs_save_header_frame[OF h]
    show ?thesis
    proof (cases "r2 = ACFS_OK")
      case False
      with assms w h True have "acfs' = a2" by (simp add: acfs_write_data_def)
      with f1 f2 show ?thesis by simp
    next
      case ok2: True
      with assms w h True have e: "acfs_save_entries a2 = Some (r, acfs')"
        by (simp add: acfs_write_data_def)
      from acfs_save_entries_frame[OF e] f1 f2 show ?thesis by simp
    qed
  qed
qed

section \<open>Directory lookup\<close>

lemma all_from_Suc:
  assumes "P i"
  shows "(\<forall>j. i + 1 \<le> j \<and> j < n \<longrightarrow> P j) \<longleftrightarrow> (\<forall>j. i \<le> j \<and> j < (n::nat) \<longrightarrow> P j)"
proof (intro iffI allI impI)
  fix j assume a: "\<forall>j. i + 1 \<le> j \<and> j < n \<longrightarrow> P j" and b: "i \<le> j \<and> j < n"
  show "P j"
  proof (cases "j = i")
    case True
    with assms show ?thesis by simp
  next
    case False
    with b have "i + 1 \<le> j \<and> j < n" by simp
    with a show ?thesis by blast
  qed
next
  fix j assume a: "\<forall>j. i \<le> j \<and> j < n \<longrightarrow> P j" and b: "i + 1 \<le> j \<and> j < n"
  then have "i \<le> j \<and> j < n" by simp
  with a show "P j" by blast
qed

lemma find_entry_from_None:
  "find_entry_from es i n did = Some None
     \<longleftrightarrow> (\<forall>j. i \<le> j \<and> j < n \<longrightarrow> j < length es \<and> \<not> entry_matches (es ! j) did)"
proof (induction es i n did rule: find_entry_from.induct)
  case (1 es i n did)
  show ?case
  proof (cases "i < n")
    case False
    then show ?thesis by (subst find_entry_from.simps) auto
  next
    case True
    show ?thesis
    proof (cases "i < length es")
      case False
      with True show ?thesis by (subst find_entry_from.simps) auto
    next
      case il: True
      show ?thesis
      proof (cases "entry_matches (es ! i) did")
        case True
        with \<open>i < n\<close> il show ?thesis
          by (subst find_entry_from.simps) (auto simp: entry_matches_def)
      next
        case False
        with \<open>i < n\<close> il have
          "find_entry_from es i n did = find_entry_from es (i + 1) n did"
          by (subst find_entry_from.simps) (auto simp: entry_matches_def)
        moreover have "find_entry_from es (i + 1) n did = Some None
           \<longleftrightarrow> (\<forall>j. i + 1 \<le> j \<and> j < n \<longrightarrow> j < length es \<and> \<not> entry_matches (es ! j) did)"
          using "1.IH"[OF \<open>i < n\<close> il] False by (simp add: entry_matches_def)
        moreover have "(\<forall>j. i + 1 \<le> j \<and> j < n \<longrightarrow> j < length es \<and> \<not> entry_matches (es ! j) did)
           \<longleftrightarrow> (\<forall>j. i \<le> j \<and> j < n \<longrightarrow> j < length es \<and> \<not> entry_matches (es ! j) did)"
          using all_from_Suc[of "\<lambda>j. j < length es \<and> \<not> entry_matches (es ! j) did" i n] False il
          by simp
        ultimately show ?thesis by simp
      qed
    qed
  qed
qed

lemma find_entry_from_Some:
  "find_entry_from es i n did = Some (Some idx)
     \<longleftrightarrow> (i \<le> idx \<and> idx < n \<and> idx < length es \<and> entry_matches (es ! idx) did
          \<and> (\<forall>j. i \<le> j \<and> j < idx \<longrightarrow> \<not> entry_matches (es ! j) did))"
proof (induction es i n did rule: find_entry_from.induct)
  case (1 es i n did)
  show ?case
  proof (cases "i < n")
    case False
    then show ?thesis by (subst find_entry_from.simps) auto
  next
    case True
    show ?thesis
    proof (cases "i < length es")
      case False
      with True show ?thesis by (subst find_entry_from.simps) auto
    next
      case il: True
      show ?thesis
      proof (cases "entry_matches (es ! i) did")
        case True
        with \<open>i < n\<close> il have "find_entry_from es i n did = Some (Some i)"
          by (subst find_entry_from.simps) (simp add: entry_matches_def)
        moreover have "(i \<le> idx \<and> idx < n \<and> idx < length es \<and> entry_matches (es ! idx) did
          \<and> (\<forall>j. i \<le> j \<and> j < idx \<longrightarrow> \<not> entry_matches (es ! j) did)) \<longleftrightarrow> idx = i"
        proof
          assume a: "i \<le> idx \<and> idx < n \<and> idx < length es \<and> entry_matches (es ! idx) did
            \<and> (\<forall>j. i \<le> j \<and> j < idx \<longrightarrow> \<not> entry_matches (es ! j) did)"
          show "idx = i"
          proof (rule ccontr)
            assume "idx \<noteq> i"
            with a have "i \<le> i \<and> i < idx" by simp
            with a have "\<not> entry_matches (es ! i) did" by blast
            with True show False by simp
          qed
        next
          assume "idx = i"
          with True \<open>i < n\<close> il show "i \<le> idx \<and> idx < n \<and> idx < length es
            \<and> entry_matches (es ! idx) did
            \<and> (\<forall>j. i \<le> j \<and> j < idx \<longrightarrow> \<not> entry_matches (es ! j) did)" by auto
        qed
        ultimately show ?thesis by auto
      next
        case False
        with \<open>i < n\<close> il have
          "find_entry_from es i n did = find_entry_from es (i + 1) n did"
          by (subst find_entry_from.simps) (auto simp: entry_matches_def)
        moreover have "find_entry_from es (i + 1) n did = Some (Some idx)
           \<longleftrightarrow> (i + 1 \<le> idx \<and> idx < n \<and> idx < length es \<and> entry_matches (es ! idx) did
          \<and> (\<forall>j. i + 1 \<le> j \<and> j < idx \<longrightarrow> \<not> entry_matches (es ! j) did))"
          using "1.IH"[OF \<open>i < n\<close> il] False by (simp add: entry_matches_def)
        moreover have "(i + 1 \<le> idx \<and> idx < n \<and> idx < length es \<and> entry_matches (es ! idx) did
          \<and> (\<forall>j. i + 1 \<le> j \<and> j < idx \<longrightarrow> \<not> entry_matches (es ! j) did))
          \<longleftrightarrow> (i \<le> idx \<and> idx < n \<and> idx < length es \<and> entry_matches (es ! idx) did
          \<and> (\<forall>j. i \<le> j \<and> j < idx \<longrightarrow> \<not> entry_matches (es ! j) did))"
          using all_from_Suc[of "\<lambda>j. \<not> entry_matches (es ! j) did" i idx] False
          by (cases "idx = i") auto
        ultimately show ?thesis by simp
      qed
    qed
  qed
qed

lemma takeWhile_take_short:
  "length (takeWhile P xs) < n \<Longrightarrow> takeWhile P (take n xs) = takeWhile P xs"
proof (induction xs arbitrary: n)
  case Nil
  then show ?case by simp
next
  case (Cons x xs)
  then show ?case by (cases n) auto
qed

lemma c_str_no_nul: "\<forall>c\<in>set (c_str s). c \<noteq> CHR 0x00"
  by (auto simp: c_str_def dest: set_takeWhileD)

lemma c_str_idem: "c_str (c_str s) = c_str s"
  by (simp add: c_str_def)

lemma strncmp_strncpy_id:
  assumes "strlen did < ACFS_MAX_DATA_ID_LEN"
  shows "strncmp_eq (strncpy_id did) did ACFS_MAX_DATA_ID_LEN"
proof -
  from assms have len: "length (c_str did) < 32" by (simp add: strlen_def ACFS_MAX_DATA_ID_LEN_def)
  then have t: "take 31 (c_str did) = c_str did" by simp
  from len obtain m where m: "32 - length (c_str did) = Suc m"
    by (metis Suc_diff_Suc diff_zero zero_less_diff)
  have arr: "strncpy_id did = c_str did @ CHR 0x00 # replicate m (CHR 0x00)"
    by (simp add: strncpy_id_def ACFS_MAX_DATA_ID_LEN_def t m)
  have "length (strncpy_id did) = 32" using len m by (simp add: arr)
  then have "take 32 (strncpy_id did) = strncpy_id did" by simp
  moreover have "c_str (strncpy_id did) = c_str did"
    unfolding arr c_str_def by (simp add: takeWhile_tail)
  moreover have "c_str (take 32 did) = c_str did"
    unfolding c_str_def using len by (intro takeWhile_take_short) (simp add: c_str_def)
  ultimately show ?thesis by (simp add: strncmp_eq_def ACFS_MAX_DATA_ID_LEN_def)
qed

lemma mounted_facts:
  assumes "acfs_mounted acfs"
  shows "initialized acfs" "length (entries acfs) < 65536"
    "unat (total_clusters (header acfs)) \<le> 8 * length (cluster_bitmap acfs)"
proof -
  from assms show "initialized acfs" by (simp add: acfs_mounted_def)
  from assms have "length (entries acfs) = unat (of_nat (max_entries_bound (header acfs)) :: u16)"
    by (simp add: acfs_mounted_def)
  moreover have "unat (of_nat (max_entries_bound (header acfs)) :: u16) < 65536"
    using unsigned_less[of "of_nat (max_entries_bound (header acfs)) :: u16", where ?'a = nat] by simp
  ultimately show "length (entries acfs) < 65536" by simp
  from assms have "length (cluster_bitmap acfs) = (unat (total_clusters (header acfs)) + 7) div 8"
    by (simp add: acfs_mounted_def bitmap_size_def)
  then show "unat (total_clusters (header acfs)) \<le> 8 * length (cluster_bitmap acfs)" by simp
qed

lemma find_entry_valid:
  assumes "acfs_find_entry acfs did = Some (Some idx)"
  shows "is_valid (entries acfs ! idx)"
  using assms by (simp add: acfs_find_entry_def find_entry_from_Some entry_matches_def)

lemma exists_False_find:
  assumes "acfs_exists acfs (Some did) = Some False" and "initialized acfs"
  shows "acfs_find_entry acfs did = Some None"
proof (cases "acfs_find_entry acfs did")
  case None
  with assms show ?thesis by (simp add: acfs_exists_def)
next
  case (Some a)
  show ?thesis
  proof (cases a)
    case None
    with Some show ?thesis by simp
  next
    case (Some idx)
    with \<open>acfs_find_entry acfs did = Some a\<close> have f: "acfs_find_entry acfs did = Some (Some idx)" by simp
    from find_entry_valid[OF f] f assms show ?thesis by (simp add: acfs_exists_def)
  qed
qed

lemma acfs_delete_found:
  assumes d: "acfs_delete acfs (Some did) = Some (r, acfs')"
    and i: "initialized acfs"
    and f: "acfs_find_entry acfs did = Some (Some idx)"
    and fr: "acfs_free_clusters acfs (cluster_list (entries acfs ! idx))
               (cluster_count (entries acfs ! idx)) = Some af"
    and sh: "shift_entries (entries af) idx (unat (data_entries (header af)) - 1) = Some es"
  shows "unat (data_entries (header af) - 1) < length es
       \<and> cluster_bitmap acfs' = cluster_bitmap af
       \<and> free_clusters (header acfs') = free_clusters (header af)
       \<and> data_entries (header acfs') = data_entries (header af) - 1
       \<and> entries acfs' = es[unat (data_entries (header af) - 1) := zero_entry]
       \<and> initialized acfs' = initialized af"
proof -
  let ?a = "af\<lparr>entries := es[unat (data_entries (header af) - 1) := zero_entry],
               header := (header af)\<lparr>data_entries := data_entries (header af) - 1\<rparr>\<rparr>"
  from find_entry_valid[OF f] have v: "is_valid (entries acfs ! idx)" .
  from d i f v fr have fd: "free_defined (cluster_list (entries acfs ! idx))"
    by (auto simp: acfs_delete_def split: if_splits)
  from d i f v fr fd sh have inb: "unat (data_entries (header af) - 1) < length es"
    by (auto simp: acfs_delete_def split: if_splits)
  from d i f v fr fd sh inb obtain r1 a1 where h: "acfs_save_header ?a = Some (r1, a1)"
    by (auto simp: acfs_delete_def split: option.splits)
  note f1 = acfs_save_header_frame[OF h]
  show ?thesis
  proof (cases "r1 = ACFS_OK")
    case False
    with d i f v fr fd sh inb h have "acfs' = a1" by (simp add: acfs_delete_def)
    with f1 inb show ?thesis by simp
  next
    case True
    with d i f v fr fd sh inb h have e: "acfs_save_entries a1 = Some (r, acfs')"
      by (simp add: acfs_delete_def)
    from acfs_save_entries_frame[OF e] f1 inb show ?thesis by simp
  qed
qed

section \<open>A delete returns\<close>

lemma save_cluster_lists_ok_lists:
  assumes "save_cluster_lists dev es esize i n = Some (ACFS_OK, dev')"
  shows "\<forall>j. i \<le> j \<and> j < n \<longrightarrow> j < length es \<and> list_readable (es ! j)"
  using assms
proof (induction dev es esize i n rule: save_cluster_lists.induct)
  case (1 dev es esize i n)
  show ?case
  proof (cases "i < n")
    case False
    then show ?thesis by auto
  next
    case True
    from True "1.prems" have il: "i < length es"
      by (subst (asm) save_cluster_lists.simps) (simp split: if_splits)
    from True il "1.prems" have here: "list_readable (es ! i)"
      by (subst (asm) save_cluster_lists.simps)
         (auto simp: list_readable_def split: if_splits option.splits)
    from True il "1.prems" have rest: "\<forall>j. i + 1 \<le> j \<and> j < n \<longrightarrow> j < length es \<and> list_readable (es ! j)"
      by (subst (asm) save_cluster_lists.simps)
         (auto split: if_splits option.splits dest: "1.IH")
    from here il have "i < length es \<and> list_readable (es ! i)" by simp
    from all_from_Suc[of "\<lambda>j. j < length es \<and> list_readable (es ! j)" i n, OF this] rest
    show ?thesis by blast
  qed
qed

lemma save_cluster_lists_returns:
  assumes "\<forall>j. i \<le> j \<and> j < n \<longrightarrow> j < length es \<and> list_readable (es ! j)"
  shows "\<exists>r dev'. save_cluster_lists dev es esize i n = Some (r, dev')"
  using assms
proof (induction dev es esize i n rule: save_cluster_lists.induct)
  case (1 dev es esize i n)
  show ?case
  proof (cases "i < n")
    case False
    then show ?thesis by (subst save_cluster_lists.simps) simp
  next
    case True
    with "1.prems" have il: "i < length es" and rd: "list_readable (es ! i)" by auto
    from "1.prems" have rest: "\<forall>j. i + 1 \<le> j \<and> j < n \<longrightarrow> j < length es \<and> list_readable (es ! j)"
      by auto
    show ?thesis
    proof (cases "cluster_count (es ! i) > 0 \<and> cluster_list (es ! i) \<noteq> NULL")
      case False
      from "1.IH"(2)[OF True il False rest] obtain r dev' where
        "save_cluster_lists dev es esize (i + 1) n = Some (r, dev')" by blast
      with True il False show ?thesis
        by (subst save_cluster_lists.simps) auto
    next
      case c: True
      with rd obtain xs where xs: "read_array (cluster_list (es ! i)) (unat (cluster_count (es ! i))) = Some xs"
        by (auto simp: list_readable_def)
      show ?thesis
      proof (cases "ops_write dev (cluster_list_addr dev esize i) (concat (map le16 xs))")
        case None
        with True il c xs show ?thesis by (subst save_cluster_lists.simps) simp
      next
        case (Some dev1)
        from "1.IH"(1)[OF True il c xs Some rest] True il c xs Some show ?thesis
          by (subst save_cluster_lists.simps) simp
      qed
    qed
  qed
qed


lemma acfs_save_entries_ok_lists:
  assumes "acfs_save_entries acfs = Some (ACFS_OK, acfs')"
  shows "storage acfs' \<noteq> None
       \<and> (\<forall>j. j < unat (data_entries (header acfs)) \<longrightarrow> list_readable (entries acfs ! j))"
proof -
  from assms obtain dev dev1 dev2 where
    "storage acfs = Some dev"
    and s: "save_cluster_lists dev1 (entries acfs) (entries_size acfs) 0
              (unat (data_entries (header acfs))) = Some (ACFS_OK, dev2)"
    and a: "acfs' = acfs\<lparr>storage := Some dev2\<rparr>"
    by (auto simp: acfs_save_entries_def split: option.splits if_splits)
  from save_cluster_lists_ok_lists[OF s] a show ?thesis by simp
qed

lemma acfs_save_entries_returns:
  assumes "storage acfs \<noteq> None"
    and "unat (data_entries (header acfs)) \<le> length (entries acfs)"
    and "\<forall>j. j < unat (data_entries (header acfs)) \<longrightarrow> list_readable (entries acfs ! j)"
  shows "\<exists>r acfs'. acfs_save_entries acfs = Some (r, acfs')"
proof -
  from assms(1) obtain dev where dev: "storage acfs = Some dev" by auto
  from assms(2,3) have
    all: "\<forall>j. 0 \<le> j \<and> j < unat (data_entries (header acfs))
            \<longrightarrow> j < length (entries acfs) \<and> list_readable (entries acfs ! j)"
    by auto
  show ?thesis
  proof (cases "ops_write dev (entries_addr dev)
                  (concat (map entry_bytes (take (unat (data_entries (header acfs))) (entries acfs))))")
    case None
    with dev assms(2) show ?thesis by (simp add: acfs_save_entries_def)
  next
    case (Some dev1)
    from save_cluster_lists_returns[OF all, of dev1 "entries_size acfs"] obtain r dev2 where
      "save_cluster_lists dev1 (entries acfs) (entries_size acfs) 0
         (unat (data_entries (header acfs))) = Some (r, dev2)" by blast
    with dev assms(2) Some show ?thesis by (simp add: acfs_save_entries_def)
  qed
qed

lemma acfs_save_header_returns:
  assumes "storage acfs \<noteq> None"
  shows "\<exists>r acfs'. acfs_save_header acfs = Some (r, acfs') \<and> storage acfs' \<noteq> None"
  using assms by (auto simp: acfs_save_header_def split: option.splits)

lemma acfs_write_data_ok_saved:
  assumes "acfs_write_data acfs idx data sz = Some (ACFS_OK, acfs')"
  shows "\<exists>a2. acfs_save_entries a2 = Some (ACFS_OK, acfs')"
  using assms
  by (fastforce simp: acfs_write_data_def split: option.splits if_splits)

lemma acfs_delete_returns:
  assumes i: "initialized acfs"
    and f: "acfs_find_entry acfs did = Some (Some idx)"
    and fr: "acfs_free_clusters acfs (cluster_list (entries acfs ! idx))
               (cluster_count (entries acfs ! idx)) = Some af"
    and fd: "free_defined (cluster_list (entries acfs ! idx))"
    and sh: "shift_entries (entries af) idx (unat (data_entries (header af)) - 1) = Some es"
    and inb: "unat (data_entries (header af) - 1) < length es"
    and st: "storage af \<noteq> None"
    and rd: "\<forall>j. j < unat (data_entries (header af) - 1) \<longrightarrow> list_readable (es ! j)"
  shows "\<exists>r acfs'. acfs_delete acfs (Some did) = Some (r, acfs')
           \<and> (r = ACFS_OK \<or> r = ACFS_ERROR_IO_ERROR)"
proof -
  let ?E = "unat (data_entries (header af) - 1)"
  let ?a = "af\<lparr>entries := es[?E := zero_entry],
               header := (header af)\<lparr>data_entries := data_entries (header af) - 1\<rparr>\<rparr>"
  from find_entry_valid[OF f] have v: "is_valid (entries acfs ! idx)" .
  from st have "storage ?a \<noteq> None" by simp
  from acfs_save_header_returns[OF this] obtain r1 a1 where
    h: "acfs_save_header ?a = Some (r1, a1)" and st1: "storage a1 \<noteq> None" by blast
  note f1 = acfs_save_header_frame[OF h]
  show ?thesis
  proof (cases "r1 = ACFS_OK")
    case False
    with i f v fr fd sh inb h acfs_save_header_ret[OF h] show ?thesis
      by (simp add: acfs_delete_def)
  next
    case True
    have len: "unat (data_entries (header a1)) \<le> length (entries a1)"
      using f1 inb by simp
    have "\<forall>j. j < unat (data_entries (header a1)) \<longrightarrow> list_readable (entries a1 ! j)"
      using f1 rd by simp
    from acfs_save_entries_returns[OF st1 len this] obtain r a' where
      e: "acfs_save_entries a1 = Some (r, a')" by blast
    with True i f v fr fd sh inb h acfs_save_entries_ret[OF e] show ?thesis
      by (simp add: acfs_delete_def)
  qed
qed
section \<open>Write followed by delete\<close>

text \<open>
  Claim C7: on a mounted filesystem, if \<open>acfs_exists\<close> answers false for an id and a write
  under that id returns \<open>ACFS_OK\<close>, then the delete of the id returns (with \<open>ACFS_OK\<close>, or
  with \<open>ACFS_ERROR_IO_ERROR\<close> when persisting fails: its changes to the state precede the
  persisting), and after it \<open>free_clusters\<close> and the cluster bitmap are again exactly what
  they were before the write, and \<open>acfs_exists\<close> answers false for the id.
\<close>

theorem write_delete_restores:
  assumes m: "acfs_mounted s"
    and ne: "acfs_exists s (Some did) = Some False"
    and w: "acfs_write s (Some did) (Some data) n = Some (ACFS_OK, s1)"
  shows "\<exists>r s2. acfs_delete s1 (Some did) = Some (r, s2)
       \<and> (r = ACFS_OK \<or> r = ACFS_ERROR_IO_ERROR)
       \<and> free_clusters (header s2) = free_clusters (header s)
       \<and> cluster_bitmap s2 = cluster_bitmap s
       \<and> acfs_exists s2 (Some did) = Some False"
proof -
  note mf = mounted_facts[OF m]
  define E where "E = unat (data_entries (header s))"
  define bm where "bm = cluster_bitmap s"
  have f0: "acfs_find_entry s did = Some None" by (rule exists_False_find[OF ne mf(1)])
  from w mf(1) f0 obtain k where sl: "strlen did < ACFS_MAX_DATA_ID_LEN"
    and c: "acfs_write_create s did k data n = Some (ACFS_OK, s1)"
    by (auto simp: acfs_write_def split: if_splits option.splits)
  define s' where "s' = s\<lparr>entries := (entries s)[E := (entries s ! E)\<lparr>data_id := strncpy_id did\<rparr>]\<rparr>"
  from c have Elt: "E < length (entries s)"
    by (auto simp: acfs_write_create_def E_def split: if_splits)
  have cover': "unat (total_clusters (header s')) \<le> 8 * length (cluster_bitmap s')"
    using mf(3) by (simp add: s'_def)
  define ks where "ks = take (unat k) (free_cluster_indices s')"
  define cl :: "u16 list" where "cl = map of_nat ks"
  from c Elt obtain a1 cl' where al: "acfs_allocate_clusters s' k = Some (ACFS_OK, a1, cl')"
    and wd: "acfs_write_data
               (a1\<lparr>entries := (entries a1)
                     [E := (entries a1 ! E)\<lparr>cluster_list := ARRAY cl', cluster_count := k, is_valid := True\<rparr>],
                   header := (header a1)\<lparr>data_entries := data_entries (header a1) + 1\<rparr>\<rparr>)
               E data n = Some (ACFS_OK, s1)"
    unfolding acfs_write_create_def E_def[symmetric] s'_def[symmetric]
    by (auto split: if_splits option.splits prod.splits)
  from acfs_allocate_clusters_result[OF cover', of k] al
  have a1: "a1 = s'\<lparr>cluster_bitmap := foldl bitmap_set bm ks,
                    header := (header s)\<lparr>free_clusters := free_clusters (header s) - k\<rparr>\<rparr>"
    and cl': "cl' = cl" and lenks: "length ks = unat k"
    by (auto simp: ks_def cl_def s'_def bm_def split: if_splits)
  have props: "\<forall>j\<in>set ks. j < unat (total_clusters (header s)) \<and> \<not> bitmap_test bm j"
    using free_cluster_indices_props[of "unat k" s'] by (auto simp: ks_def s'_def bm_def)
  then have inb: "\<forall>j\<in>set ks. j div 8 < length bm" using mf(3) by (auto simp: bm_def)
  from props total_clusters_small[of s] have small: "\<forall>j\<in>set ks. j < 65536" by auto
  from props have free: "\<forall>j\<in>set ks. \<not> bitmap_test bm j" by auto
  note fr = acfs_write_data_frame[OF wd]
  have s1_bm: "cluster_bitmap s1 = foldl bitmap_set bm ks" using fr by (simp add: a1 s'_def)
  have s1_F: "free_clusters (header s1) = free_clusters (header s) - k" using fr by (simp add: a1 s'_def)
  have s1_E: "data_entries (header s1) = data_entries (header s) + 1" using fr by (simp add: a1 s'_def)
  have s1_init: "initialized s1" using fr mf(1) by (simp add: a1 s'_def)
  have len1: "length (entries s1) = length (entries s)" using fr by (simp add: a1 s'_def)
  have other: "\<And>j. j \<noteq> E \<Longrightarrow> entries s1 ! j = entries s ! j" using fr by (simp add: a1 s'_def)
  have e1: "is_valid (entries s1 ! E)" "data_id (entries s1 ! E) = strncpy_id did"
    "cluster_list (entries s1 ! E) = ARRAY cl" "cluster_count (entries s1 ! E) = k"
    using fr Elt by (simp_all add: a1 s'_def cl')
  have "unat (data_entries (header s) + 1) = (E + 1) mod 65536"
    by (simp add: unat_word_ariths E_def)
  with Elt mf(2) have unatE1: "unat (data_entries (header s1)) = E + 1" by (simp add: s1_E)
  from f0 have nomatch: "\<And>j. j < E \<Longrightarrow> \<not> entry_matches (entries s ! j) did"
    by (simp add: acfs_find_entry_def find_entry_from_None E_def)
  have match: "entry_matches (entries s1 ! E) did"
    using e1 strncmp_strncpy_id[OF sl] by (simp add: entry_matches_def)
  have find1: "acfs_find_entry s1 did = Some (Some E)"
    unfolding acfs_find_entry_def unatE1 find_entry_from_Some
    using Elt len1 match nomatch other by auto
  have ra: "read_array (ARRAY cl) (unat k) = Some cl"
    using lenks by (auto simp: read_array_def cl_def)
  have cc: "clear_clusters (foldl bitmap_set bm ks) cl = Some bm"
    unfolding cl_def by (rule clear_after_set[OF inb small free])
  define af where "af = s1\<lparr>cluster_bitmap := bm,
      header := (header s1)\<lparr>free_clusters := free_clusters (header s1) + k\<rparr>\<rparr>"
  have free1: "acfs_free_clusters s1 (cluster_list (entries s1 ! E)) (cluster_count (entries s1 ! E)) = Some af"
    by (simp add: acfs_free_clusters_def e1 ra s1_bm cc af_def)
  have afE: "unat (data_entries (header af)) - 1 = E" by (simp add: af_def unatE1)
  have sh: "shift_entries (entries af) E (unat (data_entries (header af)) - 1) = Some (entries s1)"
    unfolding afE by (subst shift_entries.simps) (simp add: af_def)
  have afE': "unat (data_entries (header af) - 1) = E"
    by (simp add: af_def s1_E E_def)
  from acfs_write_data_ok_saved[OF wd] obtain a2 where
    sv: "acfs_save_entries a2 = Some (ACFS_OK, s1)" by blast
  from acfs_save_entries_frame[OF sv] acfs_save_entries_ok_lists[OF sv]
  have st1: "storage s1 \<noteq> None"
    and rd1: "\<forall>j. j < unat (data_entries (header s1)) \<longrightarrow> list_readable (entries s1 ! j)"
    by simp_all
  have fd: "free_defined (cluster_list (entries s1 ! E))" by (simp add: e1 free_defined_def)
  have inb: "unat (data_entries (header af) - 1) < length (entries s1)"
    unfolding afE' using Elt len1 by simp
  have st: "storage af \<noteq> None" using st1 by (simp add: af_def)
  have rd: "\<forall>j. j < unat (data_entries (header af) - 1) \<longrightarrow> list_readable (entries s1 ! j)"
    unfolding afE' using rd1 unatE1 by simp
  from acfs_delete_returns[OF s1_init find1 free1 fd sh inb st rd] obtain r s2 where
    d: "acfs_delete s1 (Some did) = Some (r, s2)"
    and rr: "r = ACFS_OK \<or> r = ACFS_ERROR_IO_ERROR" by blast
  from acfs_delete_found[OF d s1_init find1 free1 sh, unfolded afE']
  have s2_bm: "cluster_bitmap s2 = bm"
    and s2_F: "free_clusters (header s2) = free_clusters (header s1) + k"
    and s2_E: "data_entries (header s2) = data_entries (header s)"
    and s2_es: "entries s2 = (entries s1)[E := zero_entry]"
    and s2_init: "initialized s2"
    using s1_init by (simp_all add: af_def s1_E)
  have "find_entry_from (entries s2) 0 E did = Some None"
    unfolding find_entry_from_None s2_es
    using Elt len1 nomatch other by auto
  then have ex2: "acfs_exists s2 (Some did) = Some False"
    by (simp add: acfs_exists_def s2_init acfs_find_entry_def s2_E E_def)
  from d rr s2_bm s2_F s1_F ex2 show ?thesis by (simp add: bm_def)
qed

section \<open>The operations on the small filesystem\<close>

text \<open>
  The example states are what the operations compute; the simplifier evaluates the
  definitions. A CRC over more than 16 bytes and a memory range beyond the 192 bytes of
  the medium are left as they are.
\<close>

lemmas codec_defs = sizeof_header_def sizeof_entry_def header_of_bytes_def rd32_def rd16_def
  header_with_crc_def header_bytes_def le16_def le32_def entry_bytes_def entry_of_bytes_def
  pointer_bytes_def byte_of_char_def char_of_byte_def zero_entry_def zero_header_def zero_acfs_def

lemmas crc_defs = acfs_crc32_def crc32_byte_def crc32_step_def

lemmas dev_defs = ops_read_def ops_write_def eeprom_read_def eeprom_write_def flash_write_def

lemmas const_defs = ACFS_MAGIC_NUMBER_def ACFS_VERSION_MAJOR_def ACFS_VERSION_MINOR_def
  ACFS_CLUSTER_SIZE_MIN_def ACFS_CLUSTER_SIZE_MAX_def ACFS_MAX_DATA_ID_LEN_def ACFS_MAX_CLUSTERS_def

lemmas init_defs = acfs_init_def acfs_load_header_def init_format_def acfs_format_def
  format_total_clusters_def format_sys_clusters_def format_header_def acfs_save_header_def
  init_mount_def init_alloc_def max_entries_bound_def bitmap_size_def
  acfs_load_entries_def entries_size_def acfs_init_bitmap_def bitmap_set_def entries_addr_def

lemmas ex_defs = ex_dev_def ex_cfg_def ex_fs_def ex_header_def ex_fs_a_def ex_entry_a_def ones_def zeros_def
  ex_fs_with_def ex_fs_bad_def ex_fs_d_def ex_entry_big_def ex_fs_big_def ex_fs_empty_id_def

lemma replicate_numeral_eval: "replicate (numeral k) x = x # replicate (pred_numeral k) x"
  by (simp add: numeral_eq_Suc)

lemma ex_init: "acfs_init zero_acfs ex_dev ex_cfg = Some (ACFS_OK, ex_fs)"
  apply (simp add: ex_defs codec_defs crc_defs dev_defs const_defs init_defs upt_rec)
  done


lemmas write_defs = acfs_write_def strlen_def c_str_def acfs_calculate_clusters_needed_def
  acfs_find_entry_def find_entry_from.simps strncmp_eq_def strncpy_id_def
  acfs_write_create_def acfs_write_update_def acfs_write_data_def
  acfs_allocate_clusters_def alloc_scan.simps bitmap_test_def bitmap_set_def bitmap_clear_def
  acfs_free_clusters_def read_array_def free_defined_def
  acfs_write_clusters_def write_clusters_from.simps cluster_addr_def mem_range_def
  acfs_save_header_def acfs_save_entries_def save_cluster_lists.simps
  entries_addr_def entries_size_def cluster_list_addr_def max_entries_bound_def

lemma ex_write_a: "acfs_write ex_fs (Some ''a'') (Some ones) 1 = Some (ACFS_OK, ex_fs_a)"
  by (simp add: ex_defs codec_defs crc_defs dev_defs const_defs write_defs upt_rec
      replicate_numeral_eval)


lemma ex_rewrite_fails:
  "acfs_write ex_fs_a (Some ''a'') (Some ones) 65 = Some (ACFS_ERROR_NO_SPACE, ex_fs_bad)"
  by (simp add: ex_defs codec_defs crc_defs dev_defs const_defs write_defs upt_rec
      replicate_numeral_eval)

lemmas read_defs = acfs_read_def acfs_find_entry_def find_entry_from.simps strncmp_eq_def c_str_def
  acfs_read_clusters_def read_clusters_from.simps cluster_addr_def mem_range_def

lemma ex_read_a:
  "acfs_read ex_fs_a (Some ''a'') (Some zeros) 1 True
     = Some \<lparr>read_ret = ACFS_OK, read_state = ex_fs_a, read_stored = replicate 64 1,
             read_actual_size = Some 1\<rparr>"
  by (simp add: ex_defs codec_defs crc_defs dev_defs const_defs read_defs upt_rec
      replicate_numeral_eval)


lemmas delete_defs = acfs_delete_def acfs_find_entry_def find_entry_from.simps strncmp_eq_def c_str_def
  acfs_free_clusters_def read_array_def free_defined_def bitmap_clear_def shift_entries.simps
  acfs_save_header_def acfs_save_entries_def save_cluster_lists.simps
  entries_addr_def entries_size_def cluster_list_addr_def

lemma ex_delete_a: "acfs_delete ex_fs_a (Some ''a'') = Some (ACFS_OK, ex_fs_d)"
  by (simp add: ex_defs codec_defs crc_defs dev_defs const_defs delete_defs upt_rec
      replicate_numeral_eval)

lemma ex_write_empty_id: "acfs_write ex_fs (Some []) (Some ones) 1 = Some (ACFS_OK, ex_fs_empty_id)"
  by (simp add: ex_defs codec_defs crc_defs dev_defs const_defs write_defs upt_rec
      replicate_numeral_eval)

lemma ex_free: "acfs_free_clusters ex_fs_a (ARRAY [2]) 1
      = Some (ex_fs_a\<lparr>cluster_bitmap := [3], header := (header ex_fs_a)\<lparr>free_clusters := 1\<rparr>\<rparr>)"
  by (simp add: ex_defs acfs_free_clusters_def read_array_def free_defined_def bitmap_clear_def)

lemma ex_exists:
  "acfs_exists ex_fs (Some ''a'') = Some False"
  "acfs_exists ex_fs_a (Some ''a'') = Some True"
  "acfs_exists ex_fs_d (Some ''a'') = Some False"
  by (simp_all add: ex_defs acfs_exists_def acfs_find_entry_def find_entry_from.simps strncmp_eq_def
      c_str_def const_defs zero_entry_def)

lemma ex_mounted: "acfs_mounted ex_fs" "acfs_mounted ex_fs_a"
  by (simp_all add: acfs_mounted_def ex_defs max_entries_bound_def bitmap_size_def codec_defs)


lemma mem_range_small: "b \<le> 192 \<Longrightarrow> mem_range m a b = map m [a..<b]"
  by (simp add: mem_range_def)

lemma acfs_crc32_small:
  "length bs \<le> 16 \<Longrightarrow> acfs_crc32 bs = foldl crc32_byte 0xFFFFFFFF bs XOR 0xFFFFFFFF"
  by (simp add: acfs_crc32_def)

lemmas write_big_defs = acfs_write_def strlen_def c_str_def acfs_calculate_clusters_needed_def
  acfs_find_entry_def find_entry_from.simps strncmp_eq_def strncpy_id_def
  acfs_write_create_def acfs_write_update_def acfs_write_data_def
  acfs_allocate_clusters_def alloc_scan.simps bitmap_test_def bitmap_set_def bitmap_clear_def
  acfs_free_clusters_def read_array_def free_defined_def
  acfs_write_clusters_def write_clusters_from.simps cluster_addr_def mem_range_small
  acfs_save_header_def acfs_save_entries_def save_cluster_lists.simps
  entries_addr_def entries_size_def cluster_list_addr_def max_entries_bound_def

lemma ex_write_big:
  "acfs_write ex_fs (Some ''a'') (Some ones) 4194305 = Some (ACFS_OK, ex_fs_big)"
  by (simp add: ex_defs codec_defs acfs_crc32_small crc32_byte_def crc32_step_def dev_defs
      const_defs write_big_defs upt_rec replicate_numeral_eval)

lemma ex_read_big:
  "\<exists>r. acfs_read ex_fs_big (Some ''a'') (Some zeros) 4194305 True = Some r
       \<and> read_stored r = replicate 64 1"
  by (simp add: ex_defs codec_defs acfs_crc32_small crc32_byte_def crc32_step_def dev_defs
      const_defs acfs_read_def acfs_find_entry_def find_entry_from.simps strncmp_eq_def c_str_def
      acfs_read_clusters_def read_clusters_from.simps cluster_addr_def upt_rec replicate_numeral_eval)


lemma rd32_le32_bytes:
  "ucast (ucast w :: byte) OR push_bit 8 (ucast (ucast (drop_bit 8 w) :: byte))
     OR push_bit 16 (ucast (ucast (drop_bit 16 w) :: byte))
     OR push_bit 24 (ucast (ucast (drop_bit 24 w) :: byte)) = (w :: u32)"
  (is "?l = w")
proof (rule bit_eqI)
  fix n assume "possible_bit TYPE(u32) n"
  then have n: "n < 32" by (simp add: possible_bit_word)
  then consider "n < 8" | "8 \<le> n" "n < 16" | "16 \<le> n" "n < 24" | "24 \<le> n" "n < 32"
    by linarith
  then show "bit ?l n = bit w n"
    by cases (auto simp: bit_or_iff bit_push_bit_iff bit_ucast_iff bit_drop_bit_eq
        possible_bit_word)
qed

lemma chunks_numeral:
  "chunks (numeral k) w xs = take w xs # chunks (pred_numeral k) w (drop w xs)"
  by (simp add: numeral_eq_Suc)

lemma chunks_1: "chunks (Suc 0) w xs = [take w xs]"
  by simp

lemma ex_deinit_big: "acfs_deinit ex_fs_big = Some (ACFS_OK, zero_acfs)"
  by (simp add: acfs_deinit_def free_defined_def ex_defs)

lemma ex_remount_big:
  "acfs_init zero_acfs (the (storage ex_fs_big)) ex_cfg = Some (ACFS_OK, ex_fs_big)"
  apply (simp add: ex_defs codec_defs acfs_crc32_small crc32_byte_def crc32_step_def dev_defs
      const_defs init_defs upt_rec replicate_numeral_eval load_cluster_lists.simps
      cluster_list_addr_def chunks_numeral chunks_1 rd32_le32_bytes read_array_def bitmap_set_def
      char_of_eq_iff)
  done

section \<open>Reads of the small filesystem\<close>

lemmas read_eval = ex_defs codec_defs crc_defs dev_defs const_defs read_defs upt_rec
  replicate_numeral_eval ex_fs_corrupt_def ex_fs_beyond_def read_result_of_def



lemma ex_read_io:
  "acfs_read ex_fs_beyond (Some ''a'') (Some zeros) 1 True
     = Some (read_result_of ACFS_ERROR_IO_ERROR ex_fs_beyond [] None)"
  by (simp add: read_eval)

lemma ex_read_crc:
  "acfs_read ex_fs_corrupt (Some ''a'') (Some zeros) 1 True
     = Some (read_result_of ACFS_ERROR_CRC_MISMATCH ex_fs_corrupt (0 # replicate 63 1) None)"
  by (simp add: read_eval)

lemma ex_read_ok:
  "acfs_read ex_fs_a (Some ''a'') (Some zeros) 1 True
     = Some (read_result_of ACFS_OK ex_fs_a (replicate 64 1) (Some 1))"
  by (simp add: read_eval)







theorem read_stores_whole_clusters_witness:
  "acfs_read ex_fs_a (Some ''a'') (Some zeros) 1 True
     = Some (read_result_of ACFS_OK ex_fs_a (replicate 64 1) (Some 1))
   \<and> read_ret (read_result_of ACFS_OK ex_fs_a (replicate 64 1) (Some 1)) = ACFS_OK
   \<and> (\<exists>idx cs. acfs_find_entry ex_fs_a ''a'' = Some (Some idx)
           \<and> unat (data_size (entries ex_fs_a ! idx)) \<le> 1
           \<and> read_array (cluster_list (entries ex_fs_a ! idx))
                (unat (cluster_count (entries ex_fs_a ! idx))) = Some cs
           \<and> read_stored (read_result_of ACFS_OK ex_fs_a (replicate 64 1) (Some 1))
               = stored_clusters ex_fs_a cs
           \<and> length (read_stored (read_result_of ACFS_OK ex_fs_a (replicate 64 1) (Some 1)))
               = unat (cluster_count (entries ex_fs_a ! idx)) * unat (cluster_size (header ex_fs_a))
           \<and> (stores_within (read_result_of ACFS_OK ex_fs_a (replicate 64 1) (Some 1)) 1
               \<longleftrightarrow> unat (cluster_count (entries ex_fs_a ! idx)) * unat (cluster_size (header ex_fs_a)) \<le> 1))
   \<and> \<not> stores_within (read_result_of ACFS_OK ex_fs_a (replicate 64 1) (Some 1)) 1"
proof -
  have r: "read_ret (read_result_of ACFS_OK ex_fs_a (replicate 64 1) (Some 1)) = ACFS_OK"
    by (simp add: read_result_of_def)
  have n: "\<not> stores_within (read_result_of ACFS_OK ex_fs_a (replicate 64 1) (Some 1)) 1"
    by (simp add: stores_within_def read_result_of_def)
  from read_stores_whole_clusters[OF ex_read_ok r] ex_read_ok r n show ?thesis by blast
qed

section \<open>Instances and counterexamples\<close>

theorem free_clusters_increments_witness:
  "length [2::u16] = unat (1::u16)
   \<and> unat (2::u16) < 8 * length (cluster_bitmap ex_fs_a)
   \<and> (\<exists>acfs'. acfs_free_clusters ex_fs_a (ARRAY [2]) 1 = Some acfs'
          \<and> (\<forall>c\<in>set [2::u16]. \<not> bitmap_test (cluster_bitmap acfs') (unat c))
          \<and> (\<forall>i. i \<notin> unat ` set [2::u16]
                \<longrightarrow> bitmap_test (cluster_bitmap acfs') i = bitmap_test (cluster_bitmap ex_fs_a) i)
          \<and> free_clusters (header acfs') = free_clusters (header ex_fs_a) + 1
          \<and> unat (free_clusters (header acfs'))
              = (unat (free_clusters (header ex_fs_a)) + length [2::u16]) mod 65536)"
proof -
  have a: "length [2::u16] = unat (1::u16)" by simp
  have b: "\<forall>c\<in>set [2::u16]. unat c < 8 * length (cluster_bitmap ex_fs_a)"
    by (simp add: ex_defs)
  from b have c: "unat (2::u16) < 8 * length (cluster_bitmap ex_fs_a)" by simp
  from free_clusters_increments[OF a b] a c show ?thesis by blast
qed

text \<open>
  Claim C6 as stated (the counter is decremented) fails: freeing cluster 2 of \<open>ex_fs_a\<close>,
  whose bit is set, takes \<open>free_clusters\<close> from 0 to 1.
\<close>

theorem free_clusters_decrement_counterexample:
  "bitmap_test (cluster_bitmap ex_fs_a) 2
   \<and> free_clusters (header ex_fs_a) = 0
   \<and> acfs_free_clusters ex_fs_a (ARRAY [2]) 1
       = Some (ex_fs_a\<lparr>cluster_bitmap := [3], header := (header ex_fs_a)\<lparr>free_clusters := 1\<rparr>\<rparr>)
   \<and> (1::u16) \<noteq> free_clusters (header ex_fs_a) - 1"
  using ex_free by (simp add: ex_defs bitmap_test_def)

lemma strlen_replicate_x:
  "strlen (replicate 32 (CHR ''x'')) = 32" "strlen (replicate 31 (CHR ''x'')) = 31" "strlen [] = 0"
  by (simp_all add: strlen_def c_str_def replicate_numeral_eval)

theorem write_validation_witness:
  "acfs_write ex_fs None (Some ones) 1 = Some (ACFS_ERROR_INVALID_PARAM, ex_fs)
   \<and> acfs_write ex_fs (Some ''a'') None 1 = Some (ACFS_ERROR_INVALID_PARAM, ex_fs)
   \<and> acfs_write ex_fs (Some ''a'') (Some ones) 0 = Some (ACFS_ERROR_INVALID_PARAM, ex_fs)
   \<and> acfs_write zero_acfs (Some ''a'') (Some ones) 1 = Some (ACFS_ERROR_NOT_INITIALIZED, zero_acfs)
   \<and> acfs_write ex_fs (Some (replicate 32 (CHR ''x''))) (Some ones) 1
       = Some (ACFS_ERROR_INVALID_PARAM, ex_fs)
   \<and> acfs_write ex_fs (Some (replicate 31 (CHR ''x''))) (Some ones) 1
       \<noteq> Some (ACFS_ERROR_INVALID_PARAM, ex_fs)"
proof -
  have i: "initialized ex_fs" "\<not> initialized zero_acfs" by (simp_all add: ex_defs zero_acfs_def)
  from write_validation[of None "Some ones" 1 ex_fs "''a''"]
  have 1: "acfs_write ex_fs None (Some ones) 1 = Some (ACFS_ERROR_INVALID_PARAM, ex_fs)" by simp
  from write_validation[of "Some ''a''" None 1 ex_fs "''a''"]
  have 2: "acfs_write ex_fs (Some ''a'') None 1 = Some (ACFS_ERROR_INVALID_PARAM, ex_fs)" by simp
  from write_validation[of "Some ''a''" "Some ones" 0 ex_fs "''a''"]
  have 3: "acfs_write ex_fs (Some ''a'') (Some ones) 0 = Some (ACFS_ERROR_INVALID_PARAM, ex_fs)" by simp
  from write_validation[of "Some ''a''" "Some ones" 1 zero_acfs "''a''"] i
  have 4: "acfs_write zero_acfs (Some ''a'') (Some ones) 1 = Some (ACFS_ERROR_NOT_INITIALIZED, zero_acfs)"
    by simp
  from write_validation[of "Some ''a''" "Some ones" 1 ex_fs "replicate 32 (CHR ''x'')"] i
    strlen_replicate_x
  have 5: "acfs_write ex_fs (Some (replicate 32 (CHR ''x''))) (Some ones) 1
       = Some (ACFS_ERROR_INVALID_PARAM, ex_fs)" by simp
  from write_validation[of "Some ''a''" "Some ones" 1 ex_fs "replicate 31 (CHR ''x'')"] i
    strlen_replicate_x
  have 6: "acfs_write ex_fs (Some (replicate 31 (CHR ''x''))) (Some ones) 1
       \<noteq> Some (ACFS_ERROR_INVALID_PARAM, ex_fs)" by simp
  from 1 2 3 4 5 6 show ?thesis by simp
qed

text \<open>
  Claim C9 as stated fails twice: the empty id is accepted on a mounted filesystem (the
  write returns \<open>ACFS_OK\<close> and creates an entry), and on an unmounted one an id of length
  32 is answered with \<open>ACFS_ERROR_NOT_INITIALIZED\<close>, not \<open>ACFS_ERROR_INVALID_PARAM\<close>.
\<close>

theorem write_validation_counterexample:
  "strlen [] = 0
   \<and> initialized ex_fs
   \<and> acfs_write ex_fs (Some []) (Some ones) 1 = Some (ACFS_OK, ex_fs_empty_id)
   \<and> strlen (replicate 32 (CHR ''x'')) = 32
   \<and> acfs_write zero_acfs (Some (replicate 32 (CHR ''x''))) (Some ones) 1
       = Some (ACFS_ERROR_NOT_INITIALIZED, zero_acfs)"
  using ex_write_empty_id strlen_replicate_x
  by (simp add: acfs_write_def zero_acfs_def ex_fs_def)

section \<open>A rewrite that fails in the allocator\<close>

text \<open>
  Claim C3 says that after a rewrite whose allocation fails the entry stays in the
  directory with no cluster list and \<open>cluster_count = 0\<close>. The code at \<open>ex_fs_a\<close>: the
  entry \<open>"a"\<close> holds one cluster; rewriting it with 65 bytes needs two, the old cluster is
  freed, the allocation fails, and the write returns \<open>ACFS_ERROR_NO_SPACE\<close> with the entry
  still valid, its \<open>cluster_list\<close> null and its \<open>cluster_count\<close> still 1. A read of the id
  then dereferences the null list.
\<close>

theorem rewrite_failure_keeps_cluster_count:
  "acfs_find_entry ex_fs_a ''a'' = Some (Some 0)
   \<and> cluster_count (entries ex_fs_a ! 0) = 1
   \<and> acfs_calculate_clusters_needed (cluster_size (header ex_fs_a)) 65 = Some 2
   \<and> acfs_write ex_fs_a (Some ''a'') (Some ones) 65 = Some (ACFS_ERROR_NO_SPACE, ex_fs_bad)
   \<and> is_valid (entries ex_fs_bad ! 0)
   \<and> cluster_list (entries ex_fs_bad ! 0) = NULL
   \<and> cluster_count (entries ex_fs_bad ! 0) = 1
   \<and> acfs_read ex_fs_bad (Some ''a'') (Some zeros) 1 True = None"
  using ex_rewrite_fails
  by (simp add: ex_defs acfs_find_entry_def find_entry_from.simps strncmp_eq_def c_str_def
      const_defs acfs_calculate_clusters_needed_def acfs_read_def acfs_read_clusters_def)

text \<open>
  Claim C5 says that \<open>free_clusters\<close> plus the cluster counts of the live entries plus
  \<open>sys_clusters\<close> is \<open>total_clusters\<close> after any sequence of operations, failed ones
  included. The code from a freshly formatted 192-byte medium: after the first write the
  sum is 0 + 1 + 2 = 3; after the failed rewrite it is 1 + 1 + 2 = 4, with 3 clusters.
\<close>

theorem accounting_after_failed_rewrite:
  "acfs_init zero_acfs ex_dev ex_cfg = Some (ACFS_OK, ex_fs)
   \<and> acfs_write ex_fs (Some ''a'') (Some ones) 1 = Some (ACFS_OK, ex_fs_a)
   \<and> acfs_write ex_fs_a (Some ''a'') (Some ones) 65 = Some (ACFS_ERROR_NO_SPACE, ex_fs_bad)
   \<and> unat (free_clusters (header ex_fs_a)) + live_cluster_sum ex_fs_a
       + unat (sys_clusters (header ex_fs_a)) = unat (total_clusters (header ex_fs_a))
   \<and> unat (free_clusters (header ex_fs_bad)) + live_cluster_sum ex_fs_bad
       + unat (sys_clusters (header ex_fs_bad)) = 4
   \<and> unat (total_clusters (header ex_fs_bad)) = 3"
  using ex_init ex_write_a ex_rewrite_fails
  by (simp add: ex_defs live_cluster_sum_def live_entries_def)

section \<open>A write whose cluster count does not fit 16 bits\<close>

text \<open>
  At \<open>n = 65536 * 64 + 1\<close> with 64-byte clusters the cluster count 65537 is returned as
  the \<open>uint16_t\<close> 1: the write stores one cluster and returns \<open>ACFS_OK\<close>, and a read
  stores these 64 bytes only, so that byte 64 of the caller's buffer is what it was
  before; the read does not deliver the data, whatever it returns.
\<close>

lemma truncated_count_read:
  "acfs_calculate_clusters_needed (cluster_size (header ex_fs)) 4194305 = Some 1
   \<and> acfs_write ex_fs (Some ''a'') (Some ones) 4194305 = Some (ACFS_OK, ex_fs_big)
   \<and> acfs_read ex_fs_big (Some ''a'') (Some zeros) 4194305 True \<noteq> None
   \<and> \<not> read_delivers (the (acfs_read ex_fs_big (Some ''a'') (Some zeros) 4194305 True))
          zeros ones 4194305"
proof -
  from ex_read_big obtain r where
    r: "acfs_read ex_fs_big (Some ''a'') (Some zeros) 4194305 True = Some r"
    and st: "read_stored r = replicate 64 1" by blast
  have "buffer_after zeros (read_stored r) 64 \<noteq> ones 64"
    by (simp add: buffer_after_def st zeros_def ones_def)
  moreover have "(64::nat) < 4194305" by simp
  ultimately have "\<not> read_delivers r zeros ones 4194305"
    unfolding read_delivers_def by blast
  moreover have "acfs_calculate_clusters_needed (cluster_size (header ex_fs)) 4194305 = Some 1"
    by (simp add: acfs_calculate_clusters_needed_def ex_defs)
  ultimately show ?thesis using r ex_write_big by simp
qed

text \<open>
  Claim C2 says that unmounting and mounting again restores what the API shows, and in
  particular that the bytes of a successful write are read back afterwards. The code
  after the same write: \<open>acfs_deinit\<close> and \<open>acfs_init\<close> with the same cluster size give
  back the very state that was unmounted, and the read again stores 64 bytes only:
  byte 64 of the caller's zeroed buffer stays 0 where the data written has 1.
\<close>

theorem remount_read_truncated_count:
  "acfs_write ex_fs (Some ''a'') (Some ones) 4194305 = Some (ACFS_OK, ex_fs_big)
   \<and> acfs_deinit ex_fs_big = Some (ACFS_OK, zero_acfs)
   \<and> acfs_init zero_acfs (the (storage ex_fs_big)) ex_cfg = Some (ACFS_OK, ex_fs_big)
   \<and> cfg_cluster_size ex_cfg = cluster_size (header ex_fs_big)
   \<and> (\<exists>r. acfs_read ex_fs_big (Some ''a'') (Some zeros) 4194305 True = Some r
          \<and> read_stored r = replicate 64 1
          \<and> buffer_after zeros (read_stored r) 64 = 0 \<and> ones 64 = 1)"
proof -
  from ex_read_big obtain r where
    r: "acfs_read ex_fs_big (Some ''a'') (Some zeros) 4194305 True = Some r"
    and st: "read_stored r = replicate 64 1" by blast
  have "buffer_after zeros (read_stored r) 64 = 0 \<and> ones 64 = 1"
    by (simp add: buffer_after_def st zeros_def ones_def)
  with r st ex_write_big ex_deinit_big ex_remount_big show ?thesis
    by (simp add: ex_defs)
qed

section \<open>A cluster list that reaches into the data area\<close>

text \<open>
  The CRC register is updated by a bijection, so two inputs with a common tail have the
  same CRC only if their heads bring the register to the same value.
\<close>

lemma word_xor_cancel:
  assumes "(a :: 'a::len word) XOR k = b XOR k"
  shows "a = b"
proof -
  from assms have "(a XOR k) XOR k = (b XOR k) XOR k" by simp
  then show ?thesis by (simp add: xor.assoc)
qed

lemma crc32_step_inj:
  assumes "crc32_step c = crc32_step c'"
  shows "c = c'"
proof -
  have top: "bit (crc32_step x) 31 = bit x 0" for x
    by (simp add: crc32_step_def bit_xor_iff bit_drop_bit_eq bit_imp_le_length del: bit_0)
       (auto dest: bit_imp_le_length)
  from assms have b0: "bit c 0 = bit c' 0" using top[of c] top[of c'] by simp
  with assms have d: "drop_bit 1 c = drop_bit 1 c'"
    by (auto simp: crc32_step_def split: if_splits dest: word_xor_cancel)
  show ?thesis
  proof (rule bit_eqI)
    fix n
    show "bit c n = bit c' n"
    proof (cases n)
      case 0
      with b0 show ?thesis by simp
    next
      case (Suc m)
      have "bit (drop_bit 1 c) m = bit (drop_bit 1 c') m" using d by simp
      then show ?thesis by (simp add: bit_drop_bit_eq Suc)
    qed
  qed
qed

lemma crc32_byte_inj:
  assumes "crc32_byte c b = crc32_byte c' b"
  shows "c = c'"
proof -
  from assms have "c XOR ucast b = c' XOR ucast b"
    unfolding crc32_byte_def by (auto dest!: crc32_step_inj)
  then show ?thesis by (rule word_xor_cancel)
qed

lemma foldl_crc32_byte_inj:
  "foldl crc32_byte c bs = foldl crc32_byte c' bs \<Longrightarrow> c = c'"
  by (induction bs arbitrary: c c') (auto dest: crc32_byte_inj)

lemma acfs_crc32_common_tail:
  "acfs_crc32 (a # b # r) = acfs_crc32 (c # d # r)
     \<longleftrightarrow> crc32_byte (crc32_byte 0xFFFFFFFF a) b = crc32_byte (crc32_byte 0xFFFFFFFF c) d"
  by (auto simp: acfs_crc32_def dest: foldl_crc32_byte_inj word_xor_cancel)

lemma ex_init_2k: "acfs_init zero_acfs ex_dev_2k ex_cfg = Some (ACFS_OK, ex_fs_2k)"
  by (simp add: ex_defs ex_dev_2k_def ex_fs_2k_def codec_defs crc_defs dev_defs const_defs init_defs upt_rec
      replicate_numeral_eval)

lemma mem_range_ones: "mem_range ones a b = replicate (b - a) 1"
proof -
  have "map ones [a..<b] = map (\<lambda>_. 1) [a..<b]" by (simp add: ones_def)
  then show ?thesis by (simp add: mem_range_def map_replicate_const)
qed

lemma mem_range_empty: "b \<le> a \<Longrightarrow> mem_range m a b = []"
  by (simp add: mem_range_def)

lemma replicate_merge:
  "replicate m x @ replicate n x = replicate (m + n) x"
  "replicate m x @ replicate n x @ ys = replicate (m + n) x @ ys"
  by (simp_all add: replicate_add)

lemma crc_mismatch_overlap:
  "acfs_crc32 (28 # 0 # replicate 1726 1) \<noteq> acfs_crc32 (replicate 1728 1)"
proof -
  have "replicate 1728 (1::byte) = 1 # 1 # replicate 1726 1"
    by (simp add: replicate_numeral_eval)
  then show ?thesis
    by (simp add: acfs_crc32_common_tail crc32_byte_def crc32_step_def)
qed

lemmas write_sym_defs = acfs_write_def strlen_def c_str_def acfs_calculate_clusters_needed_def
  acfs_find_entry_def find_entry_from.simps strncmp_eq_def strncpy_id_def
  acfs_write_create_def acfs_write_update_def acfs_write_data_def
  acfs_allocate_clusters_def alloc_scan.simps bitmap_test_def bitmap_set_def bitmap_clear_def
  acfs_free_clusters_def read_array_def free_defined_def
  acfs_write_clusters_def write_clusters_from.simps cluster_addr_def mem_range_ones mem_range_empty
  acfs_save_header_def acfs_save_entries_def save_cluster_lists.simps
  entries_addr_def entries_size_def cluster_list_addr_def max_entries_bound_def

lemma ex_overlap:
  "\<exists>s1. acfs_write ex_fs_2k (Some ''a'') (Some ones) 1728 = Some (ACFS_OK, s1)
       \<and> cluster_list (entries s1 ! 0) = ARRAY [2, 3, 4, 5, 6, 7, 8, 9, 10, 11, 12, 13, 14, 15, 16,
             17, 18, 19, 20, 21, 22, 23, 24, 25, 26, 27, 28]
       \<and> (\<exists>r. acfs_read s1 (Some ''a'') (Some zeros) 1728 True = Some r
              \<and> read_ret r = ACFS_ERROR_CRC_MISMATCH
              \<and> read_stored r = 28 # 0 # replicate 1726 1)"
  apply (simp add: ex_dev_def ex_cfg_def ex_header_def ex_dev_2k_def ex_fs_2k_def codec_defs acfs_crc32_small crc32_byte_def
      crc32_step_def dev_defs const_defs write_sym_defs replicate_merge)
  apply (simp add: ex_dev_def ex_cfg_def ex_header_def ex_dev_2k_def ex_fs_2k_def codec_defs acfs_crc32_small crc32_byte_def
      crc32_step_def dev_defs const_defs acfs_read_def acfs_find_entry_def find_entry_from.simps strncmp_eq_def c_str_def
  acfs_read_clusters_def read_clusters_from.simps cluster_addr_def mem_range_empty replicate_merge crc_mismatch_overlap)
  done

text \<open>
  Claim C1 says that after a successful write of \<open>n\<close> bytes a read into a buffer of at
  least \<open>n\<close> bytes succeeds and delivers these bytes. The code on a freshly formatted
  2048-byte EEPROM with 64-byte clusters, at \<open>n = 1728\<close>: the write takes the clusters
  2 to 28 and returns \<open>ACFS_OK\<close>; the entry's cluster list, 54 bytes written behind the
  one directory record at offset 76, ends at offset 130 and so overwrites the first two
  bytes of cluster 2 (offset 128) with the last list element, 28. The read gives these
  two bytes in place of the data and returns \<open>ACFS_ERROR_CRC_MISMATCH\<close>.
\<close>

theorem write_read_cluster_list_overlap:
  "acfs_init zero_acfs ex_dev_2k ex_cfg = Some (ACFS_OK, ex_fs_2k)
   \<and> (\<exists>s1. acfs_write ex_fs_2k (Some ''a'') (Some ones) 1728 = Some (ACFS_OK, s1)
         \<and> cluster_list (entries s1 ! 0) = ARRAY [2, 3, 4, 5, 6, 7, 8, 9, 10, 11, 12, 13, 14, 15, 16,
               17, 18, 19, 20, 21, 22, 23, 24, 25, 26, 27, 28]
         \<and> (\<exists>r. acfs_read s1 (Some ''a'') (Some zeros) 1728 True = Some r
                \<and> read_ret r = ACFS_ERROR_CRC_MISMATCH
                \<and> read_stored r = 28 # 0 # replicate 1726 1
                \<and> buffer_after zeros (read_stored r) 0 = 28 \<and> ones 0 = 1))"
proof -
  from ex_overlap obtain s1 r where
    w: "acfs_write ex_fs_2k (Some ''a'') (Some ones) 1728 = Some (ACFS_OK, s1)"
    and cl: "cluster_list (entries s1 ! 0) = ARRAY [2, 3, 4, 5, 6, 7, 8, 9, 10, 11, 12, 13, 14, 15,
               16, 17, 18, 19, 20, 21, 22, 23, 24, 25, 26, 27, 28]"
    and r: "acfs_read s1 (Some ''a'') (Some zeros) 1728 True = Some r"
    and ret: "read_ret r = ACFS_ERROR_CRC_MISMATCH"
    and st: "read_stored r = 28 # 0 # replicate 1726 1" by blast
  have "buffer_after zeros (read_stored r) 0 = 28 \<and> ones 0 = 1"
    by (simp add: buffer_after_def st ones_def)
  with ex_init_2k w cl r ret st show ?thesis by blast
qed
section \<open>A directory with two entries\<close>

lemma replicate_update_0:
  "(replicate (numeral k) x)[0 := y] = y # replicate (pred_numeral k) x"
  by (simp add: numeral_eq_Suc)

lemma replicate_3: "replicate 3 x = [x, x, x]"
  by (simp add: numeral_3_eq_3)

lemmas ex_128k_defs = ex_dev_def ex_cfg_def ex_header_def ex_dev_128k_def ex_cfg_3_def
  ex_fs_128k_def ex_fs_b_def ex_entry_b_def ex_entry_a_def

lemma ex_init_128k: "acfs_init zero_acfs ex_dev_128k ex_cfg_3 = Some (ACFS_OK, ex_fs_128k)"
  by (simp add: ex_128k_defs codec_defs acfs_crc32_small crc32_byte_def crc32_step_def dev_defs
      const_defs init_defs replicate_merge upt_rec replicate_update_0 replicate_3)

lemma ex_write_b: "acfs_write ex_fs_128k (Some ''b'') (Some ones) 1 = Some (ACFS_OK, ex_fs_b)"
  by (simp add: ex_128k_defs codec_defs acfs_crc32_small crc32_byte_def crc32_step_def dev_defs
      const_defs write_sym_defs replicate_merge)

lemma ex_write_second:
  "\<exists>s1. acfs_write ex_fs_b (Some ''a'') (Some ones) 1 = Some (ACFS_OK, s1)
        \<and> data_entries (header s1) = 2
        \<and> cluster_list (entries s1 ! 1) = ARRAY [4]"
  by (simp add: ex_128k_defs codec_defs acfs_crc32_small crc32_byte_def crc32_step_def dev_defs
      const_defs write_sym_defs replicate_merge)

lemma ex_mounted_b: "acfs_mounted ex_fs_b"
  by (simp add: acfs_mounted_def ex_fs_b_def ex_header_def max_entries_bound_def bitmap_size_def
      codec_defs)

lemma ex_exists_b: "acfs_exists ex_fs_b (Some ''a'') = Some False"
  by (simp add: ex_fs_b_def ex_entry_b_def ex_entry_a_def ex_header_def acfs_exists_def
      acfs_find_entry_def find_entry_from.simps strncmp_eq_def c_str_def const_defs zero_entry_def)

text \<open>
  Two instances of write followed by delete: on the freshly formatted one-slot filesystem
  \<open>ex_fs\<close>, and on \<open>ex_fs_b\<close>, where the id \<open>"a"\<close> becomes the second entry of the directory
  (with its cluster list in cluster 4).
\<close>

theorem write_delete_restores_witness:
  "acfs_mounted ex_fs
   \<and> acfs_exists ex_fs (Some ''a'') = Some False
   \<and> acfs_write ex_fs (Some ''a'') (Some ones) 1 = Some (ACFS_OK, ex_fs_a)
   \<and> acfs_exists ex_fs_a (Some ''a'') = Some True
   \<and> acfs_delete ex_fs_a (Some ''a'') = Some (ACFS_OK, ex_fs_d)
   \<and> free_clusters (header ex_fs_d) = free_clusters (header ex_fs)
   \<and> cluster_bitmap ex_fs_d = cluster_bitmap ex_fs
   \<and> acfs_exists ex_fs_d (Some ''a'') = Some False
   \<and> acfs_mounted ex_fs_b
   \<and> acfs_exists ex_fs_b (Some ''a'') = Some False
   \<and> (\<exists>s1. acfs_write ex_fs_b (Some ''a'') (Some ones) 1 = Some (ACFS_OK, s1)
         \<and> data_entries (header s1) = 2
         \<and> (\<exists>r s2. acfs_delete s1 (Some ''a'') = Some (r, s2)
                \<and> (r = ACFS_OK \<or> r = ACFS_ERROR_IO_ERROR)
                \<and> free_clusters (header s2) = free_clusters (header ex_fs_b)
                \<and> cluster_bitmap s2 = cluster_bitmap ex_fs_b
                \<and> acfs_exists s2 (Some ''a'') = Some False))"
proof -
  have one: "acfs_exists ex_fs_a (Some ''a'') = Some True
     \<and> acfs_delete ex_fs_a (Some ''a'') = Some (ACFS_OK, ex_fs_d)
     \<and> free_clusters (header ex_fs_d) = free_clusters (header ex_fs)
     \<and> cluster_bitmap ex_fs_d = cluster_bitmap ex_fs
     \<and> acfs_exists ex_fs_d (Some ''a'') = Some False"
    using write_delete_restores[OF ex_mounted(1) ex_exists(1) ex_write_a] ex_exists ex_delete_a
    by simp
  from ex_write_second obtain s1 where
    w: "acfs_write ex_fs_b (Some ''a'') (Some ones) 1 = Some (ACFS_OK, s1)"
    and e: "data_entries (header s1) = 2" by blast
  from write_delete_restores[OF ex_mounted_b ex_exists_b w] w e
  have two: "\<exists>s1. acfs_write ex_fs_b (Some ''a'') (Some ones) 1 = Some (ACFS_OK, s1)
         \<and> data_entries (header s1) = 2
         \<and> (\<exists>r s2. acfs_delete s1 (Some ''a'') = Some (r, s2)
                \<and> (r = ACFS_OK \<or> r = ACFS_ERROR_IO_ERROR)
                \<and> free_clusters (header s2) = free_clusters (header ex_fs_b)
                \<and> cluster_bitmap s2 = cluster_bitmap ex_fs_b
                \<and> acfs_exists s2 (Some ''a'') = Some False)"
    by blast
  from one two ex_mounted(1) ex_exists(1) ex_write_a ex_mounted_b ex_exists_b
  show ?thesis by blast
qed

end
